theory Spec2Isabelle
  imports Main "HOL-Library.Sublist" "HOL-Library.AList"
begin

section \<open>Data model\<close>

text \<open>
  Modelled from the spec: the entities module of the package is not among the sources.
  The value objects below follow section 3 of the specification and carry the fields that
  \<^verbatim>\<open>rate_limit.py\<close> and \<^verbatim>\<open>middleware.py\<close> read and write. Python integers are
  \<open>int\<close>, dictionaries with a fixed set of keys are records, the strategy registry is
  a map.
\<close>

datatype RateLimitStrategyName = SHORT | MEDIUM | LONG | OtherName string
  \<comment> \<open>the three members the sources name; \<open>OtherName\<close> stands for any further member\<close>

text \<open>
  An f-string is kept as the list of its pieces, literal text and interpolated values, so
  that no rendering of a value as text is assumed.
\<close>

datatype piece = Lit string | IntV int | OptIntV "int option" | NameV RateLimitStrategyName

type_synonym message = "piece list"

type_synonym header_dict = "(string \<times> string) list"

text \<open>The \<^verbatim>\<open>detail\<close> dictionary of the exceeded signal (keys message, retry_after, limit, window).\<close>

record Detail =
  message :: message
  retry_after :: "int option"
  limit :: int
  window :: int

text \<open>
  Exceptions, all of them subclasses of Python's \<^verbatim>\<open>Exception\<close>:
  \<^verbatim>\<open>RateLimitHTTPException(status_code, detail, headers)\<close>,
  \<^verbatim>\<open>RateLimitException(message, status_code)\<close>, and any other exception with its text
  (a store or network failure, a failure inside a caller-supplied function).
\<close>

datatype exn =
    RateLimitHTTPException int Detail header_dict
  | RateLimitException message int
  | OtherException string

record RateLimitResult =
  allowed :: bool
  key :: string
  current_count :: int
  limit :: int
  ttl :: int
  retry_after :: "int option"
  strategy_name :: RateLimitStrategyName

record RateLimitStrategy =
  name :: RateLimitStrategyName
  limit :: int
  ttl :: int

datatype KeyExtractionType = IP | HEADER | QUERY_PARAM | COOKIE | CUSTOM

record 'rq KeyExtractionStrategy =
  type :: KeyExtractionType
  field :: "string option"
  default_value :: "string option"
  extractor :: "('rq \<Rightarrow> exn + string) option"

record 'rq RateLimitConfig =
  strategy :: "RateLimitStrategy option"
  strategy_name :: "RateLimitStrategyName option"
  key_extraction :: "'rq KeyExtractionStrategy option"
  bypass_function :: "('rq \<Rightarrow> exn + bool) option"
  custom_error_message :: "string option"
  enabled :: bool

text \<open>
  The repository interface: both operations act on the store's state \<open>'s\<close> and may raise.
\<close>

record 's IRateLimitRepository =
  increment_counter :: "string \<Rightarrow> int \<Rightarrow> 's \<Rightarrow> (exn + int) \<times> 's"
  get_current_count :: "string \<Rightarrow> 's \<Rightarrow> (exn + int) \<times> 's"

datatype log_level = INFO | WARNING | ERROR

datatype log_record =
    LogExn log_level string exn
  | LogNames log_level string "RateLimitStrategyName list"

text \<open>
  Everything outside the engine that a call can change: the store, the logger's output,
  the state of the application behind the middleware, and what the middleware prints.
\<close>

record ('s, 'h) world =
  store :: 's
  log :: "log_record list"
  app :: 'h
  printed :: "exn list"

text \<open>The fields of \<^verbatim>\<open>RateLimitUseCase\<close>; the logger writes to the world's log.\<close>

record ('rq, 's) RateLimitUseCase =
  rate_limit_repository :: "'s IRateLimitRepository"
  key_extraction_use_case :: "'rq \<Rightarrow> 'rq KeyExtractionStrategy \<Rightarrow> exn + string"
  default_strategies :: "RateLimitStrategy list"
  strategy_map :: "RateLimitStrategyName \<rightharpoonup> RateLimitStrategy"

section \<open>The strategy registry\<close>

definition get_default_strategies :: "RateLimitStrategy list" where
  "get_default_strategies =
     [\<lparr>name = SHORT, limit = 3, ttl = 60\<rparr>,
      \<lparr>name = MEDIUM, limit = 20, ttl = 600\<rparr>,
      \<lparr>name = LONG, limit = 100, ttl = 3600\<rparr>]"

text \<open>
  The comprehension \<^verbatim>\<open>{strategy.name: strategy for strategy in strategies}\<close>: a later
  strategy of the same name replaces an earlier one.
\<close>

fun strategy_dict ::
  "RateLimitStrategy list \<Rightarrow> (RateLimitStrategyName \<rightharpoonup> RateLimitStrategy)
     \<Rightarrow> (RateLimitStrategyName \<rightharpoonup> RateLimitStrategy)" where
  "strategy_dict [] m = m"
| "strategy_dict (s # ss) m = strategy_dict ss (m(name s \<mapsto> s))"

text \<open>
  The constructor. \<^verbatim>\<open>default_strategies or self._get_default_strategies()\<close> takes the
  defaults for \<^verbatim>\<open>None\<close> and for the empty list.
\<close>

definition RateLimitUseCase_init ::
  "'s IRateLimitRepository \<Rightarrow> ('rq \<Rightarrow> 'rq KeyExtractionStrategy \<Rightarrow> exn + string)
     \<Rightarrow> RateLimitStrategy list option \<Rightarrow> ('rq, 's) RateLimitUseCase" where
  "RateLimitUseCase_init repository key_extraction_uc strategies =
     (let ds = (case strategies of
                  None \<Rightarrow> get_default_strategies
                | Some xs \<Rightarrow> if xs = [] then get_default_strategies else xs)
      in \<lparr>rate_limit_repository = repository,
          key_extraction_use_case = key_extraction_uc,
          default_strategies = ds,
          strategy_map = strategy_dict ds Map.empty\<rparr>)"

definition determine_strategy ::
  "('rq, 's) RateLimitUseCase \<Rightarrow> 'rq RateLimitConfig option \<Rightarrow> RateLimitStrategyName
     \<Rightarrow> exn + RateLimitStrategy" where
  "determine_strategy self config default_strategy_name =
     (let use_default =
            (case strategy_map self default_strategy_name of
               None \<Rightarrow> Inl (RateLimitException
                             [Lit ''Default strategy not found: '', NameV default_strategy_name] 500)
             | Some s \<Rightarrow> Inr s)
      in case config of
           None \<Rightarrow> use_default
         | Some c \<Rightarrow>
             (case strategy c of
                Some s \<Rightarrow> Inr s
              | None \<Rightarrow>
                  (case strategy_name c of
                     Some n \<Rightarrow>
                       (case strategy_map self n of
                          None \<Rightarrow> Inl (RateLimitException
                                        [Lit ''Unknown strategy name: '', NameV n] 500)
                        | Some s \<Rightarrow> Inr s)
                   | None \<Rightarrow> use_default)))"

definition update_strategies ::
  "('rq, 's) RateLimitUseCase \<Rightarrow> RateLimitStrategy list \<Rightarrow> ('s, 'h) world
     \<Rightarrow> ('rq, 's) RateLimitUseCase \<times> ('s, 'h) world" where
  "update_strategies self strategies w =
     (self\<lparr>default_strategies := strategies,
            strategy_map := strategy_dict strategies Map.empty\<rparr>,
      w\<lparr>log := log w @
           [LogNames INFO ''Updated rate limiting strategies: '' (map name strategies)]\<rparr>)"

definition get_strategy ::
  "('rq, 's) RateLimitUseCase \<Rightarrow> RateLimitStrategyName \<Rightarrow> RateLimitStrategy option" where
  "get_strategy self n = strategy_map self n"

section \<open>The engine\<close>

definition determine_key_strategy ::
  "'rq RateLimitConfig option \<Rightarrow> 'rq KeyExtractionStrategy" where
  "determine_key_strategy config =
     (case config of
        None \<Rightarrow> \<lparr>type = IP, field = None, default_value = None, extractor = None\<rparr>
      | Some c \<Rightarrow>
          (case key_extraction c of
             Some ks \<Rightarrow> ks
           | None \<Rightarrow> \<lparr>type = IP, field = None, default_value = None, extractor = None\<rparr>))"

text \<open>An empty custom message is falsy in Python, so the generated text is used for it.\<close>

definition get_error_message :: "'rq RateLimitConfig option \<Rightarrow> RateLimitResult \<Rightarrow> message" where
  "get_error_message config result =
     (let generated =
            [Lit ''Rate limit exceeded. Maximum '', IntV (RateLimitResult.limit result),
             Lit '' requests per '', IntV (RateLimitResult.ttl result),
             Lit '' seconds. Please try again in '', OptIntV (RateLimitResult.retry_after result),
             Lit '' seconds.'']
      in case config of
           None \<Rightarrow> generated
         | Some c \<Rightarrow>
             (case custom_error_message c of
                None \<Rightarrow> generated
              | Some m \<Rightarrow> if m = [] then generated else [Lit m]))"

text \<open>
  The body of the \<^verbatim>\<open>try\<close> block of \<^verbatim>\<open>check_rate_limit\<close>. The method
  \<^verbatim>\<open>to_headers\<close> of the result belongs to the entities module and is a parameter.
  An exception of the bypass function is logged as a warning and the check goes on.
\<close>

definition check_rate_limit_try ::
  "(RateLimitResult \<Rightarrow> header_dict) \<Rightarrow> ('rq, 's) RateLimitUseCase \<Rightarrow> 'rq
     \<Rightarrow> 'rq RateLimitConfig option \<Rightarrow> RateLimitStrategyName \<Rightarrow> ('s, 'h) world
     \<Rightarrow> (exn + RateLimitResult) \<times> ('s, 'h) world" where
  "check_rate_limit_try to_headers self request config default_strategy_name w =
     (case determine_strategy self config default_strategy_name of
        Inl e \<Rightarrow> (Inl e, w)
      | Inr strat \<Rightarrow>
     (case key_extraction_use_case self request (determine_key_strategy config) of
        Inl e \<Rightarrow> (Inl e, w)
      | Inr rate_limit_key \<Rightarrow>
     (let bypass = (case config of
                      None \<Rightarrow> None
                    | Some c \<Rightarrow> map_option (\<lambda>f. f request) (bypass_function c))
      in if bypass = Some (Inr True)
         then (Inr \<lparr>allowed = True, key = rate_limit_key, current_count = 0,
                     RateLimitResult.limit = limit strat, RateLimitResult.ttl = ttl strat,
                     RateLimitResult.retry_after = None,
                     RateLimitResult.strategy_name = name strat\<rparr>, w)
         else
     (let w1 = (case bypass of
                  Some (Inl e) \<Rightarrow> w\<lparr>log := log w @ [LogExn WARNING ''Bypass function failed: '' e]\<rparr>
                | _ \<Rightarrow> w)
      in case increment_counter (rate_limit_repository self) rate_limit_key (ttl strat)
                (store w1) of
           (Inl e, s') \<Rightarrow> (Inl e, w1\<lparr>store := s'\<rparr>)
         | (Inr count, s') \<Rightarrow>
             (let is_allowed = (count \<le> limit strat);
                  retry = (if \<not> is_allowed then Some (ttl strat) else None);
                  result = \<lparr>allowed = is_allowed, key = rate_limit_key, current_count = count,
                            RateLimitResult.limit = limit strat,
                            RateLimitResult.ttl = ttl strat,
                            RateLimitResult.retry_after = retry,
                            RateLimitResult.strategy_name = name strat\<rparr>
              in if \<not> is_allowed
                 then (Inl (RateLimitHTTPException 429
                              \<lparr>message = get_error_message config result,
                               Detail.retry_after = retry,
                               Detail.limit = limit strat,
                               window = ttl strat\<rparr>
                              (to_headers result)), w1\<lparr>store := s'\<rparr>)
                 else (Inr result, w1\<lparr>store := s'\<rparr>))))))"

text \<open>
  The handlers of the \<^verbatim>\<open>try\<close> block: the exceeded signal is raised again as it is,
  every other exception is logged and replaced by a \<^verbatim>\<open>RateLimitException\<close> with a
  fixed message and status 500.
\<close>

definition check_rate_limit ::
  "(RateLimitResult \<Rightarrow> header_dict) \<Rightarrow> ('rq, 's) RateLimitUseCase \<Rightarrow> 'rq
     \<Rightarrow> 'rq RateLimitConfig option \<Rightarrow> RateLimitStrategyName \<Rightarrow> ('s, 'h) world
     \<Rightarrow> (exn + RateLimitResult) \<times> ('s, 'h) world" where
  "check_rate_limit to_headers self request config default_strategy_name w =
     (case check_rate_limit_try to_headers self request config default_strategy_name w of
        (Inr result, w') \<Rightarrow> (Inr result, w')
      | (Inl (RateLimitHTTPException sc d h), w') \<Rightarrow> (Inl (RateLimitHTTPException sc d h), w')
      | (Inl e, w') \<Rightarrow>
          (Inl (RateLimitException [Lit ''Rate limit check failed''] 500),
           w'\<lparr>log := log w' @ [LogExn ERROR ''Rate limit check failed: '' e]\<rparr>))"

definition get_current_usage_try ::
  "('rq, 's) RateLimitUseCase \<Rightarrow> 'rq \<Rightarrow> 'rq RateLimitConfig option
     \<Rightarrow> RateLimitStrategyName \<Rightarrow> ('s, 'h) world
     \<Rightarrow> (exn + RateLimitResult) \<times> ('s, 'h) world" where
  "get_current_usage_try self request config default_strategy_name w =
     (case determine_strategy self config default_strategy_name of
        Inl e \<Rightarrow> (Inl e, w)
      | Inr strat \<Rightarrow>
     (case key_extraction_use_case self request (determine_key_strategy config) of
        Inl e \<Rightarrow> (Inl e, w)
      | Inr rate_limit_key \<Rightarrow>
     (case get_current_count (rate_limit_repository self) rate_limit_key (store w) of
        (Inl e, s') \<Rightarrow> (Inl e, w\<lparr>store := s'\<rparr>)
      | (Inr count, s') \<Rightarrow>
          (let is_allowed = (count < limit strat);
               retry = (if \<not> is_allowed then Some (ttl strat) else None)
           in (Inr \<lparr>allowed = is_allowed, key = rate_limit_key, current_count = count,
                     RateLimitResult.limit = limit strat,
                     RateLimitResult.ttl = ttl strat,
                     RateLimitResult.retry_after = retry,
                     RateLimitResult.strategy_name = name strat\<rparr>,
               w\<lparr>store := s'\<rparr>)))))"

definition get_current_usage ::
  "('rq, 's) RateLimitUseCase \<Rightarrow> 'rq \<Rightarrow> 'rq RateLimitConfig option
     \<Rightarrow> RateLimitStrategyName \<Rightarrow> ('s, 'h) world
     \<Rightarrow> (exn + RateLimitResult) \<times> ('s, 'h) world" where
  "get_current_usage self request config default_strategy_name w =
     (case get_current_usage_try self request config default_strategy_name w of
        (Inr result, w') \<Rightarrow> (Inr result, w')
      | (Inl e, w') \<Rightarrow>
          (Inl (RateLimitException [Lit ''Usage check failed''] 500),
           w'\<lparr>log := log w' @ [LogExn ERROR ''Usage check failed: '' e]\<rparr>))"

text \<open>
  Calls that leave out \<^verbatim>\<open>default_strategy_name\<close> take the default of the signature.
\<close>

definition check_rate_limit_default_name ::
  "(RateLimitResult \<Rightarrow> header_dict) \<Rightarrow> ('rq, 's) RateLimitUseCase \<Rightarrow> 'rq
     \<Rightarrow> 'rq RateLimitConfig option \<Rightarrow> ('s, 'h) world
     \<Rightarrow> (exn + RateLimitResult) \<times> ('s, 'h) world" where
  "check_rate_limit_default_name to_headers self request config w =
     check_rate_limit to_headers self request config MEDIUM w"

definition get_current_usage_default_name ::
  "('rq, 's) RateLimitUseCase \<Rightarrow> 'rq \<Rightarrow> 'rq RateLimitConfig option \<Rightarrow> ('s, 'h) world
     \<Rightarrow> (exn + RateLimitResult) \<times> ('s, 'h) world" where
  "get_current_usage_default_name self request config w =
     get_current_usage self request config MEDIUM w"

section \<open>The middleware\<close>

text \<open>
  What the middleware reads of a request: the path of its URL and the endpoint in its
  scope; the peer address and the named attributes are what key extraction and bypass
  functions look at.
\<close>

record 'e Request =
  url_path :: string
  scope_endpoint :: "'e option"
  client_host :: string
  request_headers :: "(string \<times> string) list"
  query_params :: "(string \<times> string) list"
  cookies :: "(string \<times> string) list"

datatype body = JSONContent Detail | AppContent string

record Response =
  status_code :: int
  content :: body
  headers :: header_dict

record ('e, 's) RateLimitMiddleware =
  rate_limit_use_case :: "('e Request, 's) RateLimitUseCase"
  default_strategy_name :: RateLimitStrategyName
  excluded_paths :: "string list"
  enabled :: bool

text \<open>\<^verbatim>\<open>str.startswith\<close> is \<^const>\<open>prefix\<close>; the loop returns at the first match.\<close>

fun path_excluded_loop :: "string list \<Rightarrow> string \<Rightarrow> bool" where
  "path_excluded_loop [] path = False"
| "path_excluded_loop (excluded_path # rest) path =
     (if prefix excluded_path path then True else path_excluded_loop rest path)"

definition is_path_excluded :: "('e, 's) RateLimitMiddleware \<Rightarrow> string \<Rightarrow> bool" where
  "is_path_excluded self path = path_excluded_loop (excluded_paths self) path"

text \<open>
  Assigning each header of the result to the response, in order. \<^verbatim>\<open>to_headers\<close> is a
  total function here, so the handler of \<^verbatim>\<open>_add_rate_limit_headers\<close> that ignores a
  failure has nothing to catch.
\<close>

fun assign_headers :: "header_dict \<Rightarrow> header_dict \<Rightarrow> header_dict" where
  "assign_headers [] hs = hs"
| "assign_headers ((k, v) # kvs) hs = assign_headers kvs (AList.update k v hs)"

definition add_rate_limit_headers ::
  "(RateLimitResult \<Rightarrow> header_dict) \<Rightarrow> Response \<Rightarrow> RateLimitResult \<Rightarrow> Response" where
  "add_rate_limit_headers to_headers response result =
     response\<lparr>headers := assign_headers (to_headers result) (headers response)\<rparr>"

text \<open>\<^verbatim>\<open>await call_next(request)\<close>: the next handler acts on the application's state.\<close>

definition run_next ::
  "('rq \<Rightarrow> 'h \<Rightarrow> (exn + Response) \<times> 'h) \<Rightarrow> 'rq \<Rightarrow> ('s, 'h) world
     \<Rightarrow> (exn + Response) \<times> ('s, 'h) world" where
  "run_next call_next request w =
     (case call_next request (app w) of (r, a') \<Rightarrow> (r, w\<lparr>app := a'\<rparr>))"

text \<open>
  The inner \<^verbatim>\<open>try\<close> of \<^verbatim>\<open>dispatch\<close> with its handler: an exceeded signal, from the
  check or from the next handler, becomes a JSON response; any other exception goes on.
\<close>

definition dispatch_check ::
  "(RateLimitResult \<Rightarrow> header_dict) \<Rightarrow> ('e, 's) RateLimitMiddleware \<Rightarrow> 'e Request
     \<Rightarrow> 'e Request RateLimitConfig option
     \<Rightarrow> ('e Request \<Rightarrow> 'h \<Rightarrow> (exn + Response) \<times> 'h) \<Rightarrow> ('s, 'h) world
     \<Rightarrow> (exn + Response) \<times> ('s, 'h) world" where
  "dispatch_check to_headers self request route_config call_next w =
     (case check_rate_limit to_headers (rate_limit_use_case self) request route_config
             (default_strategy_name self) w of
        (Inl (RateLimitHTTPException sc d h), w') \<Rightarrow>
          (Inr \<lparr>status_code = sc, content = JSONContent d, headers = h\<rparr>, w')
      | (Inl e, w') \<Rightarrow> (Inl e, w')
      | (Inr result, w') \<Rightarrow>
          (case run_next call_next request w' of
             (Inl (RateLimitHTTPException sc d h), w'') \<Rightarrow>
               (Inr \<lparr>status_code = sc, content = JSONContent d, headers = h\<rparr>, w'')
           | (Inl e, w'') \<Rightarrow> (Inl e, w'')
           | (Inr response, w'') \<Rightarrow>
               (Inr (add_rate_limit_headers to_headers response result), w'')))"

text \<open>
  The outer \<^verbatim>\<open>try\<close> block. \<^verbatim>\<open>get_rate_limit_config\<close> belongs to the decorator module
  and is a parameter.
\<close>

definition dispatch_try ::
  "(RateLimitResult \<Rightarrow> header_dict) \<Rightarrow> ('e \<Rightarrow> 'e Request RateLimitConfig option)
     \<Rightarrow> ('e, 's) RateLimitMiddleware \<Rightarrow> 'e Request
     \<Rightarrow> ('e Request \<Rightarrow> 'h \<Rightarrow> (exn + Response) \<times> 'h) \<Rightarrow> ('s, 'h) world
     \<Rightarrow> (exn + Response) \<times> ('s, 'h) world" where
  "dispatch_try to_headers get_rate_limit_config self request call_next w =
     (case scope_endpoint request of
        None \<Rightarrow> dispatch_check to_headers self request None call_next w
      | Some endpoint \<Rightarrow>
          (case get_rate_limit_config endpoint of
             None \<Rightarrow> dispatch_check to_headers self request None call_next w
           | Some route_config \<Rightarrow>
               if \<not> RateLimitConfig.enabled route_config
               then run_next call_next request w
               else dispatch_check to_headers self request (Some route_config) call_next w))"

text \<open>
  \<^verbatim>\<open>dispatch\<close>: the two early returns, then the outer \<^verbatim>\<open>try\<close> whose handler prints
  the exception and calls the next handler.
\<close>

definition dispatch ::
  "(RateLimitResult \<Rightarrow> header_dict) \<Rightarrow> ('e \<Rightarrow> 'e Request RateLimitConfig option)
     \<Rightarrow> ('e, 's) RateLimitMiddleware \<Rightarrow> 'e Request
     \<Rightarrow> ('e Request \<Rightarrow> 'h \<Rightarrow> (exn + Response) \<times> 'h) \<Rightarrow> ('s, 'h) world
     \<Rightarrow> (exn + Response) \<times> ('s, 'h) world" where
  "dispatch to_headers get_rate_limit_config self request call_next w =
     (if \<not> enabled self then run_next call_next request w
      else if is_path_excluded self (url_path request) then run_next call_next request w
      else
        (case dispatch_try to_headers get_rate_limit_config self request call_next w of
           (Inl e, w') \<Rightarrow> run_next call_next request (w'\<lparr>printed := printed w' @ [e]\<rparr>)
         | (Inr response, w') \<Rightarrow> (Inr response, w')))"

section \<open>Stores, extractors and requests for concrete runs\<close>

text \<open>
  Modelled from the spec: the in-memory repository of the adapters package is not among
  the sources. Section 4.3: incrementing creates an absent key with value 1 and the given
  expiry, and increments an existing key without touching its expiry; reading returns 0
  for an absent key and changes nothing. Time does not pass in this model, so no key
  expires.
\<close>

type_synonym memory_store = "string \<rightharpoonup> int \<times> int"

definition memory_increment_counter ::
  "string \<Rightarrow> int \<Rightarrow> memory_store \<Rightarrow> (exn + int) \<times> memory_store" where
  "memory_increment_counter k t m =
     (case m k of
        None \<Rightarrow> (Inr 1, m(k \<mapsto> (1, t)))
      | Some (c, expiry) \<Rightarrow> (Inr (c + 1), m(k \<mapsto> (c + 1, expiry))))"

definition memory_get_current_count ::
  "string \<Rightarrow> memory_store \<Rightarrow> (exn + int) \<times> memory_store" where
  "memory_get_current_count k m =
     (case m k of None \<Rightarrow> (Inr 0, m) | Some (c, expiry) \<Rightarrow> (Inr c, m))"

definition MemoryRateLimitRepository :: "memory_store IRateLimitRepository" where
  "MemoryRateLimitRepository =
     \<lparr>increment_counter = memory_increment_counter,
      get_current_count = memory_get_current_count\<rparr>"

definition memory_count :: "memory_store \<Rightarrow> string \<Rightarrow> int" where
  "memory_count m k = (case m k of None \<Rightarrow> 0 | Some (c, expiry) \<Rightarrow> c)"

text \<open>A store that cannot be reached: both operations raise and change nothing.\<close>

definition unreachable_repository :: "memory_store IRateLimitRepository" where
  "unreachable_repository =
     \<lparr>increment_counter = (\<lambda>k t m. (Inl (OtherException ''store unreachable''), m)),
      get_current_count = (\<lambda>k m. (Inl (OtherException ''store unreachable''), m))\<rparr>"

text \<open>
  Modelled from the spec: \<^verbatim>\<open>KeyExtractionUseCase.extract_key\<close> is not among the sources.
  Section 4.1: the peer address for IP; the named field of the headers, query parameters
  or cookies, else the default value, else an error; the caller's function for CUSTOM,
  its failure wrapped in an extraction error. The key is prefixed with the type.
\<close>

definition key_extraction_error :: exn where
  "key_extraction_error = RateLimitException [Lit ''Failed to extract rate limit key''] 400"

definition extract_field ::
  "string \<Rightarrow> (string \<times> string) list \<Rightarrow> 'rq KeyExtractionStrategy \<Rightarrow> exn + string" where
  "extract_field tag attributes ks =
     (case field ks of
        None \<Rightarrow> Inl key_extraction_error
      | Some f \<Rightarrow>
          (case map_of attributes f of
             Some v \<Rightarrow> Inr (tag @ v)
           | None \<Rightarrow>
               (case default_value ks of
                  Some d \<Rightarrow> Inr (tag @ d)
                | None \<Rightarrow> Inl key_extraction_error)))"

definition extract_key ::
  "'e Request \<Rightarrow> 'e Request KeyExtractionStrategy \<Rightarrow> exn + string" where
  "extract_key request ks =
     (case type ks of
        IP \<Rightarrow> Inr (''ip:'' @ client_host request)
      | HEADER \<Rightarrow> extract_field ''header:'' (request_headers request) ks
      | QUERY_PARAM \<Rightarrow> extract_field ''query_param:'' (query_params request) ks
      | COOKIE \<Rightarrow> extract_field ''cookie:'' (cookies request) ks
      | CUSTOM \<Rightarrow>
          (case extractor ks of
             None \<Rightarrow> Inl key_extraction_error
           | Some f \<Rightarrow>
               (case f request of
                  Inr v \<Rightarrow> Inr (''custom:'' @ v)
                | Inl e \<Rightarrow> Inl key_extraction_error)))"

text \<open>Requests, configurations, a handler and a world to run the engine on.\<close>

definition api_request :: "string Request" where
  "api_request =
     \<lparr>url_path = ''/api/data'', scope_endpoint = Some ''get_data'',
      client_host = ''10.0.0.7'', request_headers = [(''User-Role'', ''guest'')],
      query_params = [], cookies = []\<rparr>"

definition healthcheck_request :: "string Request" where
  "healthcheck_request = api_request\<lparr>url_path := ''/healthcheck''\<rparr>"

definition plain_config :: "string Request RateLimitConfig" where
  "plain_config =
     \<lparr>strategy = None, strategy_name = None, key_extraction = None, bypass_function = None,
      custom_error_message = None, RateLimitConfig.enabled = True\<rparr>"

definition two_per_minute :: RateLimitStrategy where
  "two_per_minute = \<lparr>name = OtherName ''custom'', limit = 2, ttl = 60\<rparr>"

definition api_key_strategy :: "string Request KeyExtractionStrategy" where
  "api_key_strategy =
     \<lparr>type = HEADER, field = Some ''X-API-Key'', default_value = None, extractor = None\<rparr>"

definition upload_config :: "string Request RateLimitConfig" where
  "upload_config = plain_config\<lparr>strategy := Some two_per_minute\<rparr>"

definition no_headers :: "RateLimitResult \<Rightarrow> header_dict" where
  "no_headers result = []"

definition no_route_config :: "string \<Rightarrow> string Request RateLimitConfig option" where
  "no_route_config endpoint = None"

definition memory_engine :: "(string Request, memory_store) RateLimitUseCase" where
  "memory_engine = RateLimitUseCase_init MemoryRateLimitRepository extract_key None"

definition unreachable_engine :: "(string Request, memory_store) RateLimitUseCase" where
  "unreachable_engine = RateLimitUseCase_init unreachable_repository extract_key None"

definition fresh_world :: "(memory_store, nat) world" where
  "fresh_world = \<lparr>store = Map.empty, log = [], app = 0, printed = []\<rparr>"

text \<open>A handler that counts its calls and answers 200.\<close>

definition ok_handler :: "string Request \<Rightarrow> nat \<Rightarrow> (exn + Response) \<times> nat" where
  "ok_handler request n =
     (Inr \<lparr>status_code = 200, content = AppContent ''ok'', headers = []\<rparr>, Suc n)"

definition health_middleware :: "(string, memory_store) RateLimitMiddleware" where
  "health_middleware =
     \<lparr>rate_limit_use_case = memory_engine, default_strategy_name = MEDIUM,
      excluded_paths = [''/health'', ''/docs''], enabled = True\<rparr>"

definition unreachable_middleware :: "(string, memory_store) RateLimitMiddleware" where
  "unreachable_middleware =
     \<lparr>rate_limit_use_case = unreachable_engine, default_strategy_name = MEDIUM,
      excluded_paths = [], enabled = True\<rparr>"

text \<open>The bypass function is configured and answers true for the request.\<close>

definition bypass_grants :: "'rq RateLimitConfig option \<Rightarrow> 'rq \<Rightarrow> bool" where
  "bypass_grants config request =
     (case config of
        None \<Rightarrow> False
      | Some c \<Rightarrow>
          (case bypass_function c of
             None \<Rightarrow> False
           | Some f \<Rightarrow> f request = Inr True))"

text \<open>An outcome reports the request as allowed: a result is returned and its flag is set.\<close>

definition reports_allowed :: "exn + RateLimitResult \<Rightarrow> bool" where
  "reports_allowed outcome = (case outcome of Inr result \<Rightarrow> allowed result | Inl e \<Rightarrow> False)"

definition is_exceeded_signal :: "exn \<Rightarrow> bool" where
  "is_exceeded_signal e = (case e of RateLimitHTTPException sc d h \<Rightarrow> True | _ \<Rightarrow> False)"

definition admin_bypass :: "string Request \<Rightarrow> exn + bool" where
  "admin_bypass request =
     Inr (map_of (request_headers request) ''User-Role'' = Some ''admin'')"

definition broken_bypass :: "string Request \<Rightarrow> exn + bool" where
  "broken_bypass request = Inl (OtherException ''bypass lookup failed'')"

definition admin_request :: "string Request" where
  "admin_request = api_request\<lparr>request_headers := [(''User-Role'', ''admin'')]\<rparr>"

text \<open>Calling the check \<open>n\<close> times in a row on the same request.\<close>

fun after_checks ::
  "(RateLimitResult \<Rightarrow> header_dict) \<Rightarrow> ('rq, 's) RateLimitUseCase \<Rightarrow> 'rq
     \<Rightarrow> 'rq RateLimitConfig option \<Rightarrow> RateLimitStrategyName \<Rightarrow> nat \<Rightarrow> ('s, 'h) world
     \<Rightarrow> ('s, 'h) world" where
  "after_checks to_headers self request config dsn 0 w = w"
| "after_checks to_headers self request config dsn (Suc n) w =
     snd (check_rate_limit to_headers self request config dsn
            (after_checks to_headers self request config dsn n w))"

section \<open>The strategy registry: resolution and replacement\<close>

lemma strategy_dict_other: "n \<notin> name ` set xs \<Longrightarrow> strategy_dict xs m n = m n"
  by (induction xs arbitrary: m) auto

lemma dom_strategy_dict: "dom (strategy_dict xs m) = dom m \<union> name ` set xs"
  by (induction xs arbitrary: m) auto

text \<open>
  Claim C7. Strategy resolution is first match wins: a strategy object in the
  configuration is returned whatever the registry holds; otherwise a strategy name in the
  configuration is looked up in the registry and its absence is the unknown-strategy
  error; otherwise (no name, or no configuration) the default name is looked up and its
  absence is the default-not-found error.
\<close>

theorem determine_strategy_first_match:
  "(strategy c = Some s \<longrightarrow>
      determine_strategy (self\<lparr>strategy_map := m\<rparr>) (Some c) d = Inr s)
   \<and> (strategy c = None \<and> strategy_name c = Some n \<longrightarrow>
      determine_strategy self (Some c) d =
        (case strategy_map self n of
           Some s' \<Rightarrow> Inr s'
         | None \<Rightarrow> Inl (RateLimitException [Lit ''Unknown strategy name: '', NameV n] 500)))
   \<and> (strategy c = None \<and> strategy_name c = None \<longrightarrow>
      determine_strategy self (Some c) d =
        (case strategy_map self d of
           Some s' \<Rightarrow> Inr s'
         | None \<Rightarrow> Inl (RateLimitException [Lit ''Default strategy not found: '', NameV d] 500)))
   \<and> determine_strategy self None d =
        (case strategy_map self d of
           Some s' \<Rightarrow> Inr s'
         | None \<Rightarrow> Inl (RateLimitException [Lit ''Default strategy not found: '', NameV d] 500))"
  by (simp add: determine_strategy_def)

lemma memory_engine_map:
  "strategy_map memory_engine = [SHORT \<mapsto> \<lparr>name = SHORT, limit = 3, ttl = 60\<rparr>,
      MEDIUM \<mapsto> \<lparr>name = MEDIUM, limit = 20, ttl = 600\<rparr>,
      LONG \<mapsto> \<lparr>name = LONG, limit = 100, ttl = 3600\<rparr>]"
  by (simp add: memory_engine_def RateLimitUseCase_init_def get_default_strategies_def)

theorem determine_strategy_first_match_witness:
  "determine_strategy (memory_engine\<lparr>strategy_map := Map.empty\<rparr>)
      (Some (plain_config\<lparr>strategy := Some two_per_minute, strategy_name := Some LONG\<rparr>)) MEDIUM
     = Inr two_per_minute
   \<and> determine_strategy memory_engine (Some (plain_config\<lparr>strategy_name := Some LONG\<rparr>)) MEDIUM
     = Inr \<lparr>name = LONG, limit = 100, ttl = 3600\<rparr>
   \<and> determine_strategy memory_engine
        (Some (plain_config\<lparr>strategy_name := Some (OtherName ''burst'')\<rparr>)) MEDIUM
     = Inl (RateLimitException [Lit ''Unknown strategy name: '', NameV (OtherName ''burst'')] 500)
   \<and> determine_strategy memory_engine (Some plain_config) SHORT
     = Inr \<lparr>name = SHORT, limit = 3, ttl = 60\<rparr>"
  using determine_strategy_first_match
          [where c = "plain_config\<lparr>strategy := Some two_per_minute, strategy_name := Some LONG\<rparr>"
             and s = two_per_minute and self = memory_engine and m = Map.empty and d = MEDIUM]
        determine_strategy_first_match
          [where c = "plain_config\<lparr>strategy_name := Some LONG\<rparr>" and self = memory_engine
             and d = MEDIUM and n = LONG]
        determine_strategy_first_match
          [where c = "plain_config\<lparr>strategy_name := Some (OtherName ''burst'')\<rparr>"
             and self = memory_engine and d = MEDIUM and n = "OtherName ''burst''"]
        determine_strategy_first_match
          [where c = plain_config and self = memory_engine and d = SHORT]
  by (simp add: plain_config_def memory_engine_map)

lemma strategy_dict_map_of:
  "strategy_dict xs m = m ++ map_of (rev (map (\<lambda>s. (name s, s)) xs))"
proof (induction xs arbitrary: m)
  case Nil
  show ?case by simp
next
  case (Cons s ss)
  have "strategy_dict (s # ss) m = strategy_dict ss (m(name s \<mapsto> s))"
    by simp
  also have "\<dots> = m(name s \<mapsto> s) ++ map_of (rev (map (\<lambda>s. (name s, s)) ss))"
    by (rule Cons)
  also have "\<dots> = m ++ map_of (rev (map (\<lambda>s. (name s, s)) (s # ss)))"
    by (rule ext) (simp add: map_add_def split: option.splits)
  finally show ?case .
qed

lemma map_of_listed:
  assumes "distinct (map name xs)" and "s \<in> set xs"
  shows "map_of (rev (map (\<lambda>s. (name s, s)) xs)) (name s) = Some s"
proof -
  have "distinct (map fst (rev (map (\<lambda>s. (name s, s)) xs)))"
    using assms(1) by (simp add: rev_map [symmetric] comp_def)
  moreover have "(name s, s) \<in> set (rev (map (\<lambda>s. (name s, s)) xs))"
    using assms(2) by auto
  ultimately show ?thesis
    by (rule map_of_is_SomeI)
qed

text \<open>
  Claim C8. \<open>update_strategies\<close> replaces the whole registry by the map built from
  the supplied list alone: the new map is the one of the list's (name, strategy) pairs,
  the last of a repeated name winning, whatever the previous map held. So a listed name
  resolves to the strategy supplied for it, the registry holds exactly the names of the
  list, and a name that is not in the list (any name, for the empty list) no longer
  resolves: as a configured name it fails with the unknown-strategy error, as the default
  name with the default-not-found error.
\<close>

theorem update_strategies_replaces_map:
  "strategy_map (fst (update_strategies self strategies w)) =
      map_of (rev (map (\<lambda>s. (name s, s)) strategies))
    \<and> default_strategies (fst (update_strategies self strategies w)) = strategies
    \<and> dom (strategy_map (fst (update_strategies self strategies w))) = name ` set strategies
    \<and> (distinct (map name strategies) \<and> s \<in> set strategies \<longrightarrow>
         get_strategy (fst (update_strategies self strategies w)) (name s) = Some s
         \<and> determine_strategy (fst (update_strategies self strategies w)) None (name s) = Inr s)
    \<and> (n \<notin> name ` set strategies \<longrightarrow>
         get_strategy (fst (update_strategies self strategies w)) n = None
         \<and> (strategy c = None \<and> strategy_name c = Some n \<longrightarrow>
              determine_strategy (fst (update_strategies self strategies w)) (Some c) d =
                Inl (RateLimitException [Lit ''Unknown strategy name: '', NameV n] 500))
         \<and> (strategy c = None \<and> strategy_name c = None \<longrightarrow>
              determine_strategy (fst (update_strategies self strategies w)) (Some c) n =
                Inl (RateLimitException [Lit ''Default strategy not found: '', NameV n] 500))
         \<and> determine_strategy (fst (update_strategies self strategies w)) None n =
                Inl (RateLimitException [Lit ''Default strategy not found: '', NameV n] 500))"
proof -
  let ?self = "fst (update_strategies self strategies w)"
  have m: "strategy_map ?self = map_of (rev (map (\<lambda>s. (name s, s)) strategies))"
    by (simp add: update_strategies_def strategy_dict_map_of)
  have ds: "default_strategies ?self = strategies"
    by (simp add: update_strategies_def)
  have dm: "dom (strategy_map ?self) = name ` set strategies"
    by (simp add: update_strategies_def dom_strategy_dict)
  have listed: "get_strategy ?self (name s) = Some s
         \<and> determine_strategy ?self None (name s) = Inr s"
    if "distinct (map name strategies)" and "s \<in> set strategies"
    using map_of_listed [OF that] by (simp add: m get_strategy_def determine_strategy_def)
  have other: "get_strategy ?self n = None
         \<and> (strategy c = None \<and> strategy_name c = Some n \<longrightarrow>
              determine_strategy ?self (Some c) d =
                Inl (RateLimitException [Lit ''Unknown strategy name: '', NameV n] 500))
         \<and> (strategy c = None \<and> strategy_name c = None \<longrightarrow>
              determine_strategy ?self (Some c) n =
                Inl (RateLimitException [Lit ''Default strategy not found: '', NameV n] 500))
         \<and> determine_strategy ?self None n =
                Inl (RateLimitException [Lit ''Default strategy not found: '', NameV n] 500)"
    if "n \<notin> name ` set strategies"
  proof -
    have "strategy_map ?self n = None"
      using that by (simp add: update_strategies_def strategy_dict_other)
    then show ?thesis
      by (simp add: determine_strategy_def get_strategy_def)
  qed
  from m ds dm listed other show ?thesis by blast
qed

theorem update_strategies_replaces_map_witness:
  "determine_strategy memory_engine None MEDIUM = Inr \<lparr>name = MEDIUM, limit = 20, ttl = 600\<rparr>
   \<and> determine_strategy (fst (update_strategies memory_engine [] fresh_world)) None MEDIUM =
       Inl (RateLimitException [Lit ''Default strategy not found: '', NameV MEDIUM] 500)
   \<and> determine_strategy (fst (update_strategies memory_engine [two_per_minute] fresh_world))
        (Some (plain_config\<lparr>strategy_name := Some MEDIUM\<rparr>)) LONG =
       Inl (RateLimitException [Lit ''Unknown strategy name: '', NameV MEDIUM] 500)
   \<and> determine_strategy
        (fst (update_strategies memory_engine [\<lparr>name = MEDIUM, limit = 10, ttl = 300\<rparr>]
                fresh_world)) None MEDIUM =
       Inr \<lparr>name = MEDIUM, limit = 10, ttl = 300\<rparr>
   \<and> get_strategy
        (fst (update_strategies memory_engine [\<lparr>name = MEDIUM, limit = 10, ttl = 300\<rparr>]
                fresh_world)) SHORT = None
   \<and> default_strategies
        (fst (update_strategies memory_engine [\<lparr>name = MEDIUM, limit = 10, ttl = 300\<rparr>]
                fresh_world)) = [\<lparr>name = MEDIUM, limit = 10, ttl = 300\<rparr>]"
proof -
  let ?m10 = "\<lparr>name = MEDIUM, limit = 10, ttl = 300\<rparr>"
  have c: "determine_strategy memory_engine None MEDIUM
             = Inr \<lparr>name = MEDIUM, limit = 20, ttl = 600\<rparr>"
    by (simp add: determine_strategy_def memory_engine_map)
  have e1: "determine_strategy (fst (update_strategies memory_engine [] fresh_world)) None MEDIUM =
       Inl (RateLimitException [Lit ''Default strategy not found: '', NameV MEDIUM] 500)"
    using update_strategies_replaces_map
        [where strategies = "[]" and n = MEDIUM and self = memory_engine and w = fresh_world
           and c = plain_config and d = LONG]
    by simp
  have e2: "determine_strategy (fst (update_strategies memory_engine [two_per_minute] fresh_world))
        (Some (plain_config\<lparr>strategy_name := Some MEDIUM\<rparr>)) LONG =
       Inl (RateLimitException [Lit ''Unknown strategy name: '', NameV MEDIUM] 500)"
    using update_strategies_replaces_map
        [where strategies = "[two_per_minute]" and n = MEDIUM and self = memory_engine
           and w = fresh_world and c = "plain_config\<lparr>strategy_name := Some MEDIUM\<rparr>"
           and d = LONG]
    by (simp add: plain_config_def two_per_minute_def)
  have e3: "determine_strategy (fst (update_strategies memory_engine [?m10] fresh_world))
              None MEDIUM = Inr ?m10
     \<and> get_strategy (fst (update_strategies memory_engine [?m10] fresh_world)) SHORT = None
     \<and> default_strategies (fst (update_strategies memory_engine [?m10] fresh_world)) = [?m10]"
    using update_strategies_replaces_map
        [where strategies = "[?m10]" and n = SHORT and s = ?m10 and self = memory_engine
           and w = fresh_world and c = plain_config and d = LONG]
    by simp
  from c e1 e2 e3 show ?thesis by blast
qed

text \<open>
  Claim C10. An engine constructed without a strategy list holds exactly SHORT (3 per 60
  seconds), MEDIUM (20 per 600 seconds) and LONG (100 per 3600 seconds), and a call of
  \<open>check_rate_limit\<close> or \<open>get_current_usage\<close> that gives no default strategy name
  uses MEDIUM.
\<close>

theorem default_engine_strategies:
  "default_strategies (RateLimitUseCase_init repository kx None) =
      [\<lparr>name = SHORT, limit = 3, ttl = 60\<rparr>,
       \<lparr>name = MEDIUM, limit = 20, ttl = 600\<rparr>,
       \<lparr>name = LONG, limit = 100, ttl = 3600\<rparr>]
   \<and> dom (strategy_map (RateLimitUseCase_init repository kx None)) = {SHORT, MEDIUM, LONG}
   \<and> get_strategy (RateLimitUseCase_init repository kx None) SHORT
        = Some \<lparr>name = SHORT, limit = 3, ttl = 60\<rparr>
   \<and> get_strategy (RateLimitUseCase_init repository kx None) MEDIUM
        = Some \<lparr>name = MEDIUM, limit = 20, ttl = 600\<rparr>
   \<and> get_strategy (RateLimitUseCase_init repository kx None) LONG
        = Some \<lparr>name = LONG, limit = 100, ttl = 3600\<rparr>
   \<and> check_rate_limit_default_name to_headers self request config w
        = check_rate_limit to_headers self request config MEDIUM w
   \<and> get_current_usage_default_name self request config w
        = get_current_usage self request config MEDIUM w
   \<and> determine_strategy (RateLimitUseCase_init repository kx None) None MEDIUM
        = Inr \<lparr>name = MEDIUM, limit = 20, ttl = 600\<rparr>"
  by (auto simp add: RateLimitUseCase_init_def get_default_strategies_def get_strategy_def
      check_rate_limit_default_name_def get_current_usage_default_name_def
      determine_strategy_def)

section \<open>The check: what the handlers and the branches of the body do\<close>

lemma check_fst:
  "fst (check_rate_limit th self rq cfg d w) =
     (case fst (check_rate_limit_try th self rq cfg d w) of
        Inr r \<Rightarrow> Inr r
      | Inl e \<Rightarrow> if is_exceeded_signal e then Inl e
                 else Inl (RateLimitException [Lit ''Rate limit check failed''] 500))"
  by (simp add: check_rate_limit_def is_exceeded_signal_def
      split: prod.splits sum.splits exn.splits)

lemma check_store:
  "store (snd (check_rate_limit th self rq cfg d w)) =
     store (snd (check_rate_limit_try th self rq cfg d w))"
  by (simp add: check_rate_limit_def split: prod.splits sum.splits exn.splits)

lemma check_log:
  "log (snd (check_rate_limit th self rq cfg d w)) =
     log (snd (check_rate_limit_try th self rq cfg d w)) @
     (case fst (check_rate_limit_try th self rq cfg d w) of
        Inr r \<Rightarrow> []
      | Inl e \<Rightarrow> if is_exceeded_signal e then []
                 else [LogExn ERROR ''Rate limit check failed: '' e])"
  by (simp add: check_rate_limit_def is_exceeded_signal_def
      split: prod.splits sum.splits exn.splits)

lemma try_bypassed:
  assumes "determine_strategy self cfg d = Inr st"
    and "key_extraction_use_case self rq (determine_key_strategy cfg) = Inr k"
    and "bypass_grants cfg rq"
  shows "check_rate_limit_try th self rq cfg d w =
     (Inr \<lparr>allowed = True, key = k, current_count = 0,
            RateLimitResult.limit = limit st, RateLimitResult.ttl = ttl st,
            RateLimitResult.retry_after = None,
            RateLimitResult.strategy_name = name st\<rparr>, w)"
  using assms
  by (auto simp add: check_rate_limit_try_def bypass_grants_def split: option.splits)

lemma try_bypassed_store:
  assumes "bypass_grants cfg rq"
  shows "store (snd (check_rate_limit_try th self rq cfg d w)) = store w"
  using assms
  by (auto simp add: check_rate_limit_try_def bypass_grants_def split: option.splits sum.splits)

lemma try_counted:
  assumes "determine_strategy self cfg d = Inr st"
    and "key_extraction_use_case self rq (determine_key_strategy cfg) = Inr k"
    and "\<not> bypass_grants cfg rq"
    and "increment_counter (rate_limit_repository self) k (ttl st) (store w) = (r, s')"
  shows "fst (check_rate_limit_try th self rq cfg d w) =
     (case r of
        Inl e \<Rightarrow> Inl e
      | Inr c \<Rightarrow>
          if c \<le> limit st
          then Inr \<lparr>allowed = True, key = k, current_count = c,
                    RateLimitResult.limit = limit st, RateLimitResult.ttl = ttl st,
                    RateLimitResult.retry_after = None,
                    RateLimitResult.strategy_name = name st\<rparr>
          else Inl (RateLimitHTTPException 429
                 \<lparr>message = get_error_message cfg
                    \<lparr>allowed = False, key = k, current_count = c,
                     RateLimitResult.limit = limit st, RateLimitResult.ttl = ttl st,
                     RateLimitResult.retry_after = Some (ttl st),
                     RateLimitResult.strategy_name = name st\<rparr>,
                  Detail.retry_after = Some (ttl st), Detail.limit = limit st,
                  window = ttl st\<rparr>
                 (th \<lparr>allowed = False, key = k, current_count = c,
                     RateLimitResult.limit = limit st, RateLimitResult.ttl = ttl st,
                     RateLimitResult.retry_after = Some (ttl st),
                     RateLimitResult.strategy_name = name st\<rparr>)))
   \<and> store (snd (check_rate_limit_try th self rq cfg d w)) = s'"
  using assms
  by (auto simp add: check_rate_limit_try_def bypass_grants_def Let_def
      split: option.splits sum.splits)

lemma extract_key_ip:
  "extract_key rq (determine_key_strategy None) = Inr (''ip:'' @ client_host rq)"
  "key_extraction c = None \<Longrightarrow>
     extract_key rq (determine_key_strategy (Some c)) = Inr (''ip:'' @ client_host rq)"
  by (simp_all add: extract_key_def determine_key_strategy_def)

lemma memory_engine_fields:
  "rate_limit_repository memory_engine = MemoryRateLimitRepository"
  "key_extraction_use_case memory_engine = extract_key"
  by (simp_all add: memory_engine_def RateLimitUseCase_init_def)

section \<open>The bypass function\<close>

text \<open>
  Claim C6. When the bypass function of the configuration answers true for the request,
  \<open>check_rate_limit\<close> leaves the store as it was, and, the strategy and the key
  having been resolved, returns at once the result with \<open>allowed\<close> true, count 0 and
  the limit, ttl and name of the resolved strategy, the world unchanged.
\<close>

theorem bypass_true_skips_store:
  assumes "bypass_function c = Some f" and "f request = Inr True"
  shows "store (snd (check_rate_limit th self request (Some c) d w)) = store w
    \<and> (determine_strategy self (Some c) d = Inr st
        \<and> key_extraction_use_case self request (determine_key_strategy (Some c)) = Inr k
       \<longrightarrow> check_rate_limit th self request (Some c) d w =
             (Inr \<lparr>allowed = True, key = k, current_count = 0,
                    RateLimitResult.limit = limit st, RateLimitResult.ttl = ttl st,
                    RateLimitResult.retry_after = None,
                    RateLimitResult.strategy_name = name st\<rparr>, w))"
proof -
  have g: "bypass_grants (Some c) request"
    using assms by (simp add: bypass_grants_def)
  have "store (snd (check_rate_limit th self request (Some c) d w)) = store w"
    by (simp add: check_store try_bypassed_store [OF g])
  moreover have "check_rate_limit th self request (Some c) d w =
             (Inr \<lparr>allowed = True, key = k, current_count = 0,
                    RateLimitResult.limit = limit st, RateLimitResult.ttl = ttl st,
                    RateLimitResult.retry_after = None,
                    RateLimitResult.strategy_name = name st\<rparr>, w)"
    if "determine_strategy self (Some c) d = Inr st"
      and "key_extraction_use_case self request (determine_key_strategy (Some c)) = Inr k"
    by (simp add: check_rate_limit_def try_bypassed [OF that g])
  ultimately show ?thesis by blast
qed

theorem bypass_true_skips_store_witness:
  "check_rate_limit no_headers memory_engine admin_request
      (Some (plain_config\<lparr>bypass_function := Some admin_bypass\<rparr>)) MEDIUM fresh_world =
     (Inr \<lparr>allowed = True, key = ''ip:10.0.0.7'', current_count = 0,
            RateLimitResult.limit = 20, RateLimitResult.ttl = 600,
            RateLimitResult.retry_after = None, RateLimitResult.strategy_name = MEDIUM\<rparr>,
      fresh_world)
   \<and> store (snd (check_rate_limit no_headers memory_engine admin_request
      (Some (plain_config\<lparr>bypass_function := Some admin_bypass\<rparr>)) MEDIUM fresh_world))
      = Map.empty"
proof -
  have a: "bypass_function (plain_config\<lparr>bypass_function := Some admin_bypass\<rparr>)
             = Some admin_bypass"
    by simp
  have b: "admin_bypass admin_request = Inr True"
    by (simp add: admin_bypass_def admin_request_def)
  have c: "determine_strategy memory_engine
             (Some (plain_config\<lparr>bypass_function := Some admin_bypass\<rparr>)) MEDIUM
           = Inr \<lparr>name = MEDIUM, limit = 20, ttl = 600\<rparr>"
    by (simp add: determine_strategy_def plain_config_def memory_engine_map)
  have d: "key_extraction_use_case memory_engine admin_request
             (determine_key_strategy (Some (plain_config\<lparr>bypass_function := Some admin_bypass\<rparr>)))
           = Inr ''ip:10.0.0.7''"
    by (simp add: memory_engine_fields extract_key_ip plain_config_def admin_request_def
        api_request_def)
  show ?thesis
    using bypass_true_skips_store [OF a b, where th = no_headers and self = memory_engine
        and d = MEDIUM and w = fresh_world and k = "''ip:10.0.0.7''"
        and st = "\<lparr>name = MEDIUM, limit = 20, ttl = 600\<rparr>"] c d
    by (simp add: fresh_world_def)
qed

text \<open>
  Claim C5. When the bypass function raises, \<open>check_rate_limit\<close> gives the outcome
  and the store it gives for the same configuration without a bypass function; once the
  strategy and the key are resolved, the store is the one left by exactly one increment
  of the key, and the failure is in the log as a warning.
\<close>

theorem bypass_failure_falls_through:
  assumes "bypass_function c = Some f" and "f request = Inl e"
  shows "fst (check_rate_limit th self request (Some c) d w) =
           fst (check_rate_limit th self request (Some (c\<lparr>bypass_function := None\<rparr>)) d w)
    \<and> store (snd (check_rate_limit th self request (Some c) d w)) =
           store (snd (check_rate_limit th self request
                         (Some (c\<lparr>bypass_function := None\<rparr>)) d w))
    \<and> (determine_strategy self (Some c) d = Inr st
        \<and> key_extraction_use_case self request (determine_key_strategy (Some c)) = Inr k
       \<longrightarrow> store (snd (check_rate_limit th self request (Some c) d w)) =
             snd (increment_counter (rate_limit_repository self) k (ttl st) (store w))
           \<and> prefix (log w @ [LogExn WARNING ''Bypass function failed: '' e])
               (log (snd (check_rate_limit th self request (Some c) d w))))"
proof -
  let ?c' = "c\<lparr>bypass_function := None\<rparr>"
  have ds: "determine_strategy self (Some ?c') d = determine_strategy self (Some c) d"
    by (simp add: determine_strategy_def split: option.splits)
  have ks: "determine_key_strategy (Some ?c') = determine_key_strategy (Some c)"
    by (simp add: determine_key_strategy_def split: option.splits)
  have em: "get_error_message (Some ?c') r = get_error_message (Some c) r" for r
    by (simp add: get_error_message_def split: option.splits)
  have t1: "fst (check_rate_limit_try th self request (Some c) d w) =
            fst (check_rate_limit_try th self request (Some ?c') d w)"
    using assms unfolding check_rate_limit_try_def ds ks em
    by (simp add: Let_def split: sum.splits prod.splits)
  have t2: "store (snd (check_rate_limit_try th self request (Some c) d w)) =
            store (snd (check_rate_limit_try th self request (Some ?c') d w))"
    using assms unfolding check_rate_limit_try_def ds ks em
    by (simp add: Let_def split: sum.splits prod.splits)
  have t3: "store (snd (check_rate_limit_try th self request (Some c) d w)) =
             snd (increment_counter (rate_limit_repository self) k (ttl st) (store w))
           \<and> prefix (log w @ [LogExn WARNING ''Bypass function failed: '' e])
               (log (snd (check_rate_limit th self request (Some c) d w)))"
    if "determine_strategy self (Some c) d = Inr st"
      and "key_extraction_use_case self request (determine_key_strategy (Some c)) = Inr k"
    using assms that unfolding check_log
    by (simp add: check_rate_limit_try_def Let_def split: sum.splits prod.splits)
  show ?thesis
    using t1 t2 t3 by (simp add: check_fst check_store)
qed

lemma memory_increment:
  "fst (increment_counter MemoryRateLimitRepository k t s) = Inr (memory_count s k + 1)"
  "memory_count (snd (increment_counter MemoryRateLimitRepository k t s)) k
     = memory_count s k + 1"
  by (simp_all add: MemoryRateLimitRepository_def memory_increment_counter_def
      memory_count_def split: option.splits)

lemma memory_get:
  "get_current_count MemoryRateLimitRepository k s = (Inr (memory_count s k), s)"
  by (simp add: MemoryRateLimitRepository_def memory_get_current_count_def
      memory_count_def split: option.splits)

lemma memory_increment_fresh:
  "increment_counter MemoryRateLimitRepository k t Map.empty = (Inr 1, [k \<mapsto> (1, t)])"
  by (simp add: MemoryRateLimitRepository_def memory_increment_counter_def)

lemma memory_increment_existing:
  "increment_counter MemoryRateLimitRepository k t [k \<mapsto> (c, t')]
     = (Inr (c + 1), [k \<mapsto> (c + 1, t')])"
  by (simp add: MemoryRateLimitRepository_def memory_increment_counter_def)

theorem bypass_failure_falls_through_witness:
  "fst (check_rate_limit no_headers memory_engine api_request
          (Some (plain_config\<lparr>bypass_function := Some broken_bypass\<rparr>)) MEDIUM fresh_world) =
     fst (check_rate_limit no_headers memory_engine api_request
          (Some (plain_config\<lparr>bypass_function := None\<rparr>)) MEDIUM fresh_world)
   \<and> store (snd (check_rate_limit no_headers memory_engine api_request
          (Some (plain_config\<lparr>bypass_function := Some broken_bypass\<rparr>)) MEDIUM fresh_world))
      = [''ip:10.0.0.7'' \<mapsto> (1, 600)]
   \<and> prefix [LogExn WARNING ''Bypass function failed: '' (OtherException ''bypass lookup failed'')]
       (log (snd (check_rate_limit no_headers memory_engine api_request
          (Some (plain_config\<lparr>bypass_function := Some broken_bypass\<rparr>)) MEDIUM fresh_world)))"
proof -
  let ?c = "plain_config\<lparr>bypass_function := Some broken_bypass\<rparr>"
  have a: "bypass_function ?c = Some broken_bypass"
    by simp
  have b: "broken_bypass api_request = Inl (OtherException ''bypass lookup failed'')"
    by (simp add: broken_bypass_def)
  have c: "determine_strategy memory_engine (Some ?c) MEDIUM
           = Inr \<lparr>name = MEDIUM, limit = 20, ttl = 600\<rparr>"
    by (simp add: determine_strategy_def plain_config_def memory_engine_map)
  have d: "key_extraction_use_case memory_engine api_request (determine_key_strategy (Some ?c))
           = Inr ''ip:10.0.0.7''"
    by (simp add: memory_engine_fields extract_key_ip plain_config_def api_request_def)
  note main = bypass_failure_falls_through [OF a b, where th = no_headers
      and self = memory_engine and d = MEDIUM and w = fresh_world and k = "''ip:10.0.0.7''"
      and st = "\<lparr>name = MEDIUM, limit = 20, ttl = 600\<rparr>"]
  have e: "snd (increment_counter (rate_limit_repository memory_engine) ''ip:10.0.0.7''
                  (ttl \<lparr>name = MEDIUM, limit = 20, ttl = 600\<rparr>) (store fresh_world))
             = [''ip:10.0.0.7'' \<mapsto> (1, 600)]"
    by (simp add: fresh_world_def memory_engine_fields memory_increment_fresh)
  have f: "log fresh_world @ [LogExn WARNING ''Bypass function failed: ''
             (OtherException ''bypass lookup failed'')]
           = [LogExn WARNING ''Bypass function failed: '' (OtherException ''bypass lookup failed'')]"
    by (simp add: fresh_world_def)
  from main c d have
    "store (snd (check_rate_limit no_headers memory_engine api_request (Some ?c) MEDIUM
                   fresh_world))
       = snd (increment_counter (rate_limit_repository memory_engine) ''ip:10.0.0.7''
                (ttl \<lparr>name = MEDIUM, limit = 20, ttl = 600\<rparr>) (store fresh_world))"
    and "prefix (log fresh_world @ [LogExn WARNING ''Bypass function failed: ''
             (OtherException ''bypass lookup failed'')])
           (log (snd (check_rate_limit no_headers memory_engine api_request (Some ?c) MEDIUM
                   fresh_world)))"
    by blast+
  with main show ?thesis
    unfolding e f by simp
qed

section \<open>The check against the store\<close>

lemma after_checks_count:
  assumes "determine_strategy self config d = Inr st"
    and "key_extraction_use_case self request (determine_key_strategy config) = Inr k"
    and "\<not> bypass_grants config request"
    and "\<And>s t. cnt (snd (increment_counter (rate_limit_repository self) k t s)) = cnt s + 1"
  shows "cnt (store (after_checks th self request config d n w)) = cnt (store w) + int n"
proof (induction n)
  case 0
  show ?case by simp
next
  case (Suc n)
  let ?w = "after_checks th self request config d n w"
  have "store (snd (check_rate_limit th self request config d ?w)) =
          snd (increment_counter (rate_limit_repository self) k (ttl st) (store ?w))"
    using try_counted [OF assms(1) assms(2) assms(3) prod.collapse [symmetric],
        where w = ?w and th = th]
    by (simp add: check_store)
  then show ?case
    using Suc assms(4) by simp
qed

lemma check_counted:
  assumes "determine_strategy self config d = Inr st"
    and "key_extraction_use_case self request (determine_key_strategy config) = Inr k"
    and "\<not> bypass_grants config request"
    and "fst (increment_counter (rate_limit_repository self) k (ttl st) (store w)) = Inr c"
  shows "fst (check_rate_limit th self request config d w) =
     (if c \<le> limit st
      then Inr \<lparr>allowed = True, key = k, current_count = c,
                RateLimitResult.limit = limit st, RateLimitResult.ttl = ttl st,
                RateLimitResult.retry_after = None,
                RateLimitResult.strategy_name = name st\<rparr>
      else Inl (RateLimitHTTPException 429
             \<lparr>message = get_error_message config
                \<lparr>allowed = False, key = k, current_count = c,
                 RateLimitResult.limit = limit st, RateLimitResult.ttl = ttl st,
                 RateLimitResult.retry_after = Some (ttl st),
                 RateLimitResult.strategy_name = name st\<rparr>,
              Detail.retry_after = Some (ttl st), Detail.limit = limit st,
              window = ttl st\<rparr>
             (th \<lparr>allowed = False, key = k, current_count = c,
                 RateLimitResult.limit = limit st, RateLimitResult.ttl = ttl st,
                 RateLimitResult.retry_after = Some (ttl st),
                 RateLimitResult.strategy_name = name st\<rparr>)))"
  using try_counted [OF assms(1) assms(2) assms(3) prod.collapse [symmetric],
      where w = w and th = th] assms(4)
  by (simp add: check_fst is_exceeded_signal_def)

text \<open>
  Claim C1. A call of \<open>check_rate_limit\<close> that reaches the store (strategy and key
  resolved, no bypass granted) and gets the count \<open>c\<close> from the increment returns the
  result with \<open>allowed\<close> true when \<open>c\<close> is at most the limit of the strategy, and
  otherwise raises the exceeded signal built from the result with \<open>allowed\<close> false
  and \<open>retry_after\<close> the ttl of the strategy. Hence, with a store whose increment
  returns the count of the key plus one and stores it, and a key whose count is 0, call
  \<open>n + 1\<close> is allowed with count \<open>n + 1\<close> as long as \<open>n\<close> is below the limit
  \<open>L\<close>, and call \<open>L + 1\<close> is the exceeded signal with retry-after the ttl.
\<close>

theorem check_allowed_iff_within_limit:
  assumes "determine_strategy self config d = Inr st"
    and "key_extraction_use_case self request (determine_key_strategy config) = Inr k"
    and "\<not> bypass_grants config request"
  shows "(increment_counter (rate_limit_repository self) k (ttl st) (store w) = (Inr c, s') \<longrightarrow>
     fst (check_rate_limit th self request config d w) =
       (if c \<le> limit st
        then Inr \<lparr>allowed = True, key = k, current_count = c,
                  RateLimitResult.limit = limit st, RateLimitResult.ttl = ttl st,
                  RateLimitResult.retry_after = None,
                  RateLimitResult.strategy_name = name st\<rparr>
        else Inl (RateLimitHTTPException 429
               \<lparr>message = get_error_message config
                  \<lparr>allowed = False, key = k, current_count = c,
                   RateLimitResult.limit = limit st, RateLimitResult.ttl = ttl st,
                   RateLimitResult.retry_after = Some (ttl st),
                   RateLimitResult.strategy_name = name st\<rparr>,
                Detail.retry_after = Some (ttl st), Detail.limit = limit st,
                window = ttl st\<rparr>
               (th \<lparr>allowed = False, key = k, current_count = c,
                   RateLimitResult.limit = limit st, RateLimitResult.ttl = ttl st,
                   RateLimitResult.retry_after = Some (ttl st),
                   RateLimitResult.strategy_name = name st\<rparr>))))
   \<and> ((\<forall>s t. fst (increment_counter (rate_limit_repository self) k t s) = Inr (cnt s + 1)
              \<and> cnt (snd (increment_counter (rate_limit_repository self) k t s)) = cnt s + 1)
        \<and> cnt (store w) = 0 \<and> 0 \<le> limit st \<longrightarrow>
      (\<forall>n. int n < limit st \<longrightarrow>
         fst (check_rate_limit th self request config d
                (after_checks th self request config d n w)) =
           Inr \<lparr>allowed = True, key = k, current_count = int n + 1,
                RateLimitResult.limit = limit st, RateLimitResult.ttl = ttl st,
                RateLimitResult.retry_after = None,
                RateLimitResult.strategy_name = name st\<rparr>)
      \<and> fst (check_rate_limit th self request config d
                (after_checks th self request config d (nat (limit st)) w)) =
           Inl (RateLimitHTTPException 429
               \<lparr>message = get_error_message config
                  \<lparr>allowed = False, key = k, current_count = limit st + 1,
                   RateLimitResult.limit = limit st, RateLimitResult.ttl = ttl st,
                   RateLimitResult.retry_after = Some (ttl st),
                   RateLimitResult.strategy_name = name st\<rparr>,
                Detail.retry_after = Some (ttl st), Detail.limit = limit st,
                window = ttl st\<rparr>
               (th \<lparr>allowed = False, key = k, current_count = limit st + 1,
                   RateLimitResult.limit = limit st, RateLimitResult.ttl = ttl st,
                   RateLimitResult.retry_after = Some (ttl st),
                   RateLimitResult.strategy_name = name st\<rparr>)))"
proof (intro conjI impI allI)
  assume "increment_counter (rate_limit_repository self) k (ttl st) (store w) = (Inr c, s')"
  then have "fst (increment_counter (rate_limit_repository self) k (ttl st) (store w)) = Inr c"
    by simp
  from check_counted [OF assms this]
  show "fst (check_rate_limit th self request config d w) =
       (if c \<le> limit st
        then Inr \<lparr>allowed = True, key = k, current_count = c,
                  RateLimitResult.limit = limit st, RateLimitResult.ttl = ttl st,
                  RateLimitResult.retry_after = None,
                  RateLimitResult.strategy_name = name st\<rparr>
        else Inl (RateLimitHTTPException 429
               \<lparr>message = get_error_message config
                  \<lparr>allowed = False, key = k, current_count = c,
                   RateLimitResult.limit = limit st, RateLimitResult.ttl = ttl st,
                   RateLimitResult.retry_after = Some (ttl st),
                   RateLimitResult.strategy_name = name st\<rparr>,
                Detail.retry_after = Some (ttl st), Detail.limit = limit st,
                window = ttl st\<rparr>
               (th \<lparr>allowed = False, key = k, current_count = c,
                   RateLimitResult.limit = limit st, RateLimitResult.ttl = ttl st,
                   RateLimitResult.retry_after = Some (ttl st),
                   RateLimitResult.strategy_name = name st\<rparr>)))" .
next
  fix n
  assume h: "(\<forall>s t. fst (increment_counter (rate_limit_repository self) k t s) = Inr (cnt s + 1)
              \<and> cnt (snd (increment_counter (rate_limit_repository self) k t s)) = cnt s + 1)
        \<and> cnt (store w) = 0 \<and> 0 \<le> limit st"
    and n: "int n < limit st"
  let ?w = "after_checks th self request config d n w"
  have "cnt (store ?w) = int n"
    using after_checks_count [OF assms, where cnt = cnt and th = th and n = n and w = w] h by simp
  then have "fst (increment_counter (rate_limit_repository self) k (ttl st) (store ?w))
               = Inr (int n + 1)"
    using h by simp
  from check_counted [OF assms this] n
  show "fst (check_rate_limit th self request config d ?w) =
           Inr \<lparr>allowed = True, key = k, current_count = int n + 1,
                RateLimitResult.limit = limit st, RateLimitResult.ttl = ttl st,
                RateLimitResult.retry_after = None,
                RateLimitResult.strategy_name = name st\<rparr>"
    by simp
next
  assume h: "(\<forall>s t. fst (increment_counter (rate_limit_repository self) k t s) = Inr (cnt s + 1)
              \<and> cnt (snd (increment_counter (rate_limit_repository self) k t s)) = cnt s + 1)
        \<and> cnt (store w) = 0 \<and> 0 \<le> limit st"
  let ?w = "after_checks th self request config d (nat (limit st)) w"
  have "cnt (store ?w) = limit st"
    using after_checks_count [OF assms, where cnt = cnt and th = th and n = "nat (limit st)" and w = w] h by simp
  then have "fst (increment_counter (rate_limit_repository self) k (ttl st) (store ?w))
               = Inr (limit st + 1)"
    using h by simp
  from check_counted [OF assms this]
  show "fst (check_rate_limit th self request config d ?w) =
           Inl (RateLimitHTTPException 429
               \<lparr>message = get_error_message config
                  \<lparr>allowed = False, key = k, current_count = limit st + 1,
                   RateLimitResult.limit = limit st, RateLimitResult.ttl = ttl st,
                   RateLimitResult.retry_after = Some (ttl st),
                   RateLimitResult.strategy_name = name st\<rparr>,
                Detail.retry_after = Some (ttl st), Detail.limit = limit st,
                window = ttl st\<rparr>
               (th \<lparr>allowed = False, key = k, current_count = limit st + 1,
                   RateLimitResult.limit = limit st, RateLimitResult.ttl = ttl st,
                   RateLimitResult.retry_after = Some (ttl st),
                   RateLimitResult.strategy_name = name st\<rparr>))"
    by simp
qed

lemma upload_resolves:
  "determine_strategy memory_engine (Some upload_config) MEDIUM = Inr two_per_minute"
  "key_extraction_use_case memory_engine api_request (determine_key_strategy (Some upload_config))
     = Inr ''ip:10.0.0.7''"
  "\<not> bypass_grants (Some upload_config) api_request"
  by (simp_all add: determine_strategy_def upload_config_def plain_config_def
      memory_engine_fields extract_key_ip api_request_def bypass_grants_def)

theorem check_allowed_iff_within_limit_witness:
  "fst (check_rate_limit no_headers memory_engine api_request (Some upload_config) MEDIUM
          fresh_world) =
     Inr \<lparr>allowed = True, key = ''ip:10.0.0.7'', current_count = 1,
          RateLimitResult.limit = 2, RateLimitResult.ttl = 60,
          RateLimitResult.retry_after = None,
          RateLimitResult.strategy_name = OtherName ''custom''\<rparr>
   \<and> fst (check_rate_limit no_headers memory_engine api_request (Some upload_config) MEDIUM
          (after_checks no_headers memory_engine api_request (Some upload_config) MEDIUM 1
             fresh_world)) =
     Inr \<lparr>allowed = True, key = ''ip:10.0.0.7'', current_count = 2,
          RateLimitResult.limit = 2, RateLimitResult.ttl = 60,
          RateLimitResult.retry_after = None,
          RateLimitResult.strategy_name = OtherName ''custom''\<rparr>
   \<and> fst (check_rate_limit no_headers memory_engine api_request (Some upload_config) MEDIUM
          (after_checks no_headers memory_engine api_request (Some upload_config) MEDIUM 2
             fresh_world)) =
     Inl (RateLimitHTTPException 429
            \<lparr>message = [Lit ''Rate limit exceeded. Maximum '', IntV 2,
                        Lit '' requests per '', IntV 60,
                        Lit '' seconds. Please try again in '', OptIntV (Some 60),
                        Lit '' seconds.''],
             Detail.retry_after = Some 60, Detail.limit = 2, window = 60\<rparr> [])"
proof -
  note main = check_allowed_iff_within_limit [OF upload_resolves,
      where w = fresh_world and c = 1 and s' = "[''ip:10.0.0.7'' \<mapsto> (1, 60)]"
        and th = no_headers and cnt = "\<lambda>s. memory_count s ''ip:10.0.0.7''"]
  have inc: "increment_counter (rate_limit_repository memory_engine) ''ip:10.0.0.7''
               (ttl two_per_minute) (store fresh_world)
             = (Inr 1, [''ip:10.0.0.7'' \<mapsto> (1, 60)])"
    by (simp add: memory_engine_fields fresh_world_def two_per_minute_def
        memory_increment_fresh)
  have contract:
    "(\<forall>s t. fst (increment_counter (rate_limit_repository memory_engine) ''ip:10.0.0.7'' t s)
               = Inr (memory_count s ''ip:10.0.0.7'' + 1)
           \<and> memory_count
               (snd (increment_counter (rate_limit_repository memory_engine) ''ip:10.0.0.7'' t s))
               ''ip:10.0.0.7'' = memory_count s ''ip:10.0.0.7'' + 1)
     \<and> memory_count (store fresh_world) ''ip:10.0.0.7'' = 0 \<and> 0 \<le> limit two_per_minute"
  proof -
    have "memory_count (store fresh_world) ''ip:10.0.0.7'' = 0"
      by (simp add: fresh_world_def memory_count_def)
    then show ?thesis
      by (simp add: memory_engine_fields memory_increment two_per_minute_def)
  qed
  have first: "fst (check_rate_limit no_headers memory_engine api_request (Some upload_config)
                      MEDIUM fresh_world) =
       Inr \<lparr>allowed = True, key = ''ip:10.0.0.7'', current_count = 1,
          RateLimitResult.limit = 2, RateLimitResult.ttl = 60,
          RateLimitResult.retry_after = None,
          RateLimitResult.strategy_name = OtherName ''custom''\<rparr>"
    using main inc by (simp add: two_per_minute_def)
  have second: "fst (check_rate_limit no_headers memory_engine api_request (Some upload_config)
          MEDIUM (after_checks no_headers memory_engine api_request (Some upload_config) MEDIUM 1
             fresh_world)) =
     Inr \<lparr>allowed = True, key = ''ip:10.0.0.7'', current_count = 2,
          RateLimitResult.limit = 2, RateLimitResult.ttl = 60,
          RateLimitResult.retry_after = None,
          RateLimitResult.strategy_name = OtherName ''custom''\<rparr>"
  proof -
    from main contract have
      "int 1 < limit two_per_minute \<longrightarrow>
         fst (check_rate_limit no_headers memory_engine api_request (Some upload_config) MEDIUM
                (after_checks no_headers memory_engine api_request (Some upload_config) MEDIUM 1
                   fresh_world)) =
           Inr \<lparr>allowed = True, key = ''ip:10.0.0.7'', current_count = int 1 + 1,
                RateLimitResult.limit = limit two_per_minute,
                RateLimitResult.ttl = ttl two_per_minute,
                RateLimitResult.retry_after = None,
                RateLimitResult.strategy_name = name two_per_minute\<rparr>"
      by blast
    then show ?thesis by (simp add: two_per_minute_def)
  qed
  have third: "fst (check_rate_limit no_headers memory_engine api_request (Some upload_config)
          MEDIUM (after_checks no_headers memory_engine api_request (Some upload_config) MEDIUM
             (nat (limit two_per_minute)) fresh_world)) =
           Inl (RateLimitHTTPException 429
               \<lparr>message = get_error_message (Some upload_config)
                  \<lparr>allowed = False, key = ''ip:10.0.0.7'',
                   current_count = limit two_per_minute + 1,
                   RateLimitResult.limit = limit two_per_minute,
                   RateLimitResult.ttl = ttl two_per_minute,
                   RateLimitResult.retry_after = Some (ttl two_per_minute),
                   RateLimitResult.strategy_name = name two_per_minute\<rparr>,
                Detail.retry_after = Some (ttl two_per_minute),
                Detail.limit = limit two_per_minute,
                window = ttl two_per_minute\<rparr>
               (no_headers \<lparr>allowed = False, key = ''ip:10.0.0.7'',
                   current_count = limit two_per_minute + 1,
                   RateLimitResult.limit = limit two_per_minute,
                   RateLimitResult.ttl = ttl two_per_minute,
                   RateLimitResult.retry_after = Some (ttl two_per_minute),
                   RateLimitResult.strategy_name = name two_per_minute\<rparr>))"
    using main contract by blast
  have n2: "nat (limit two_per_minute) = 2"
    by (simp add: two_per_minute_def)
  from third have third':
    "fst (check_rate_limit no_headers memory_engine api_request (Some upload_config) MEDIUM
          (after_checks no_headers memory_engine api_request (Some upload_config) MEDIUM 2
             fresh_world)) =
     Inl (RateLimitHTTPException 429
            \<lparr>message = [Lit ''Rate limit exceeded. Maximum '', IntV 2,
                        Lit '' requests per '', IntV 60,
                        Lit '' seconds. Please try again in '', OptIntV (Some 60),
                        Lit '' seconds.''],
             Detail.retry_after = Some 60, Detail.limit = 2, window = 60\<rparr> [])"
    unfolding n2
    by (simp add: two_per_minute_def get_error_message_def upload_config_def plain_config_def
        no_headers_def)
  from first second third' show ?thesis by blast
qed

section \<open>Reading the usage\<close>

lemma usage_counted:
  assumes "determine_strategy self config d = Inr st"
    and "key_extraction_use_case self request (determine_key_strategy config) = Inr k"
    and "get_current_count (rate_limit_repository self) k (store w) = (Inr c, s')"
  shows "get_current_usage self request config d w =
     (Inr \<lparr>allowed = (c < limit st), key = k, current_count = c,
            RateLimitResult.limit = limit st, RateLimitResult.ttl = ttl st,
            RateLimitResult.retry_after = (if c < limit st then None else Some (ttl st)),
            RateLimitResult.strategy_name = name st\<rparr>, w\<lparr>store := s'\<rparr>)"
  using assms
  by (simp add: get_current_usage_def get_current_usage_try_def Let_def)

text \<open>
  Claim C2. For a count \<open>c\<close> and a strategy of limit \<open>L\<close>: \<open>get_current_usage\<close>,
  reading \<open>c\<close> from the store, reports \<open>allowed\<close> exactly when \<open>c < L\<close> (and
  gives the ttl as \<open>retry_after\<close> otherwise), while \<open>check_rate_limit\<close>, getting
  \<open>c\<close> from the increment, reports \<open>allowed\<close> exactly when \<open>c \<le> L\<close>; at
  \<open>c = L\<close> the first says no and the second yes.
\<close>

theorem usage_exclusive_check_inclusive:
  assumes "determine_strategy self config d = Inr st"
    and "key_extraction_use_case self request (determine_key_strategy config) = Inr k"
    and "\<not> bypass_grants config request"
    and "get_current_count (rate_limit_repository self) k (store wu) = (Inr c, su)"
    and "increment_counter (rate_limit_repository self) k (ttl st) (store wc) = (Inr c, sc)"
  shows "fst (get_current_usage self request config d wu) =
           Inr \<lparr>allowed = (c < limit st), key = k, current_count = c,
                RateLimitResult.limit = limit st, RateLimitResult.ttl = ttl st,
                RateLimitResult.retry_after = (if c < limit st then None else Some (ttl st)),
                RateLimitResult.strategy_name = name st\<rparr>
    \<and> reports_allowed (fst (get_current_usage self request config d wu)) = (c < limit st)
    \<and> reports_allowed (fst (check_rate_limit th self request config d wc)) = (c \<le> limit st)"
proof -
  have "fst (increment_counter (rate_limit_repository self) k (ttl st) (store wc)) = Inr c"
    using assms(5) by simp
  from check_counted [OF assms(1) assms(2) assms(3) this, where th = th]
  have "reports_allowed (fst (check_rate_limit th self request config d wc)) = (c \<le> limit st)"
    by (simp add: reports_allowed_def)
  then show ?thesis
    using usage_counted [OF assms(1) assms(2) assms(4)] by (simp add: reports_allowed_def)
qed

theorem usage_exclusive_check_inclusive_witness:
  "reports_allowed (fst (get_current_usage memory_engine api_request (Some upload_config) MEDIUM
       (fresh_world\<lparr>store := [''ip:10.0.0.7'' \<mapsto> (2, 60)]\<rparr>))) = False
   \<and> reports_allowed (fst (check_rate_limit no_headers memory_engine api_request
       (Some upload_config) MEDIUM
       (fresh_world\<lparr>store := [''ip:10.0.0.7'' \<mapsto> (1, 60)]\<rparr>))) = True"
proof -
  have g: "get_current_count (rate_limit_repository memory_engine) ''ip:10.0.0.7''
             (store (fresh_world\<lparr>store := [''ip:10.0.0.7'' \<mapsto> (2, 60)]\<rparr>))
           = (Inr 2, [''ip:10.0.0.7'' \<mapsto> (2, 60)])"
    by (simp add: memory_engine_fields memory_get memory_count_def)
  have i: "increment_counter (rate_limit_repository memory_engine) ''ip:10.0.0.7''
             (ttl two_per_minute) (store (fresh_world\<lparr>store := [''ip:10.0.0.7'' \<mapsto> (1, 60)]\<rparr>))
           = (Inr 2, [''ip:10.0.0.7'' \<mapsto> (2, 60)])"
    using memory_increment_existing [of "''ip:10.0.0.7''" 60 1 60]
    by (simp add: memory_engine_fields two_per_minute_def)
  show ?thesis
    using usage_exclusive_check_inclusive [OF upload_resolves g i, where th = no_headers]
    by (simp add: two_per_minute_def reports_allowed_def)
qed

section \<open>Failures of the store and of key extraction\<close>

lemma unreachable_engine_fields:
  "rate_limit_repository unreachable_engine = unreachable_repository"
  "key_extraction_use_case unreachable_engine = extract_key"
  "strategy_map unreachable_engine = strategy_map memory_engine"
  by (simp_all add: unreachable_engine_def memory_engine_def RateLimitUseCase_init_def)

lemma default_medium:
  "determine_strategy memory_engine None MEDIUM = Inr \<lparr>name = MEDIUM, limit = 20, ttl = 600\<rparr>"
  "determine_strategy unreachable_engine None MEDIUM
     = Inr \<lparr>name = MEDIUM, limit = 20, ttl = 600\<rparr>"
  by (simp_all add: determine_strategy_def unreachable_engine_fields memory_engine_map)

text \<open>
  Claim C3, as the code has it. A failure of key extraction or of the store does not
  leave the engine as it was raised. \<open>check_rate_limit\<close> logs it as an error and
  raises a \<open>RateLimitException\<close> with the message ``Rate limit check failed'' and
  status 500 in its place, unless the failure is itself an exceeded signal;
  \<open>get_current_usage\<close> does the same for every failure, with the message
  ``Usage check failed''.
\<close>

theorem failures_are_wrapped:
  assumes "determine_strategy self config d = Inr st"
  shows "(key_extraction_use_case self request (determine_key_strategy config) = Inl e
          \<and> \<not> is_exceeded_signal e \<longrightarrow>
            check_rate_limit th self request config d w =
              (Inl (RateLimitException [Lit ''Rate limit check failed''] 500),
               w\<lparr>log := log w @ [LogExn ERROR ''Rate limit check failed: '' e]\<rparr>))
    \<and> (key_extraction_use_case self request (determine_key_strategy config) = Inl e \<longrightarrow>
            get_current_usage self request config d w =
              (Inl (RateLimitException [Lit ''Usage check failed''] 500),
               w\<lparr>log := log w @ [LogExn ERROR ''Usage check failed: '' e]\<rparr>))
    \<and> (key_extraction_use_case self request (determine_key_strategy config) = Inr k
          \<and> \<not> bypass_grants config request
          \<and> increment_counter (rate_limit_repository self) k (ttl st) (store w) = (Inl e, s')
          \<and> \<not> is_exceeded_signal e \<longrightarrow>
            fst (check_rate_limit th self request config d w) =
              Inl (RateLimitException [Lit ''Rate limit check failed''] 500)
            \<and> store (snd (check_rate_limit th self request config d w)) = s'
            \<and> last (log (snd (check_rate_limit th self request config d w))) =
                LogExn ERROR ''Rate limit check failed: '' e)
    \<and> (key_extraction_use_case self request (determine_key_strategy config) = Inr k
          \<and> get_current_count (rate_limit_repository self) k (store w) = (Inl e, s') \<longrightarrow>
            get_current_usage self request config d w =
              (Inl (RateLimitException [Lit ''Usage check failed''] 500),
               w\<lparr>store := s', log := log w @ [LogExn ERROR ''Usage check failed: '' e]\<rparr>))"
proof -
  have c1: "key_extraction_use_case self request (determine_key_strategy config) = Inl e
            \<and> \<not> is_exceeded_signal e
      \<longrightarrow> check_rate_limit th self request config d w =
            (Inl (RateLimitException [Lit ''Rate limit check failed''] 500),
             w\<lparr>log := log w @ [LogExn ERROR ''Rate limit check failed: '' e]\<rparr>)"
    using assms
    by (simp add: check_rate_limit_def check_rate_limit_try_def is_exceeded_signal_def
        split: exn.splits)
  have c2: "key_extraction_use_case self request (determine_key_strategy config) = Inl e
      \<longrightarrow> get_current_usage self request config d w =
            (Inl (RateLimitException [Lit ''Usage check failed''] 500),
             w\<lparr>log := log w @ [LogExn ERROR ''Usage check failed: '' e]\<rparr>)"
    using assms by (simp add: get_current_usage_def get_current_usage_try_def)
  have c3: "key_extraction_use_case self request (determine_key_strategy config) = Inr k
            \<and> \<not> bypass_grants config request
            \<and> increment_counter (rate_limit_repository self) k (ttl st) (store w) = (Inl e, s')
            \<and> \<not> is_exceeded_signal e
      \<longrightarrow> fst (check_rate_limit th self request config d w) =
              Inl (RateLimitException [Lit ''Rate limit check failed''] 500)
            \<and> store (snd (check_rate_limit th self request config d w)) = s'
            \<and> last (log (snd (check_rate_limit th self request config d w))) =
                LogExn ERROR ''Rate limit check failed: '' e"
  proof
    assume h: "key_extraction_use_case self request (determine_key_strategy config) = Inr k
            \<and> \<not> bypass_grants config request
            \<and> increment_counter (rate_limit_repository self) k (ttl st) (store w) = (Inl e, s')
            \<and> \<not> is_exceeded_signal e"
    then have "fst (check_rate_limit_try th self request config d w) = Inl e
        \<and> store (snd (check_rate_limit_try th self request config d w)) = s'"
      using try_counted [OF assms, where k = k and rq = request and w = w and r = "Inl e"
          and s' = s' and th = th]
      by simp
    with h show "fst (check_rate_limit th self request config d w) =
              Inl (RateLimitException [Lit ''Rate limit check failed''] 500)
            \<and> store (snd (check_rate_limit th self request config d w)) = s'
            \<and> last (log (snd (check_rate_limit th self request config d w))) =
                LogExn ERROR ''Rate limit check failed: '' e"
      by (simp add: check_fst check_store check_log)
  qed
  have c4: "key_extraction_use_case self request (determine_key_strategy config) = Inr k
            \<and> get_current_count (rate_limit_repository self) k (store w) = (Inl e, s')
      \<longrightarrow> get_current_usage self request config d w =
            (Inl (RateLimitException [Lit ''Usage check failed''] 500),
             w\<lparr>store := s', log := log w @ [LogExn ERROR ''Usage check failed: '' e]\<rparr>)"
    using assms by (simp add: get_current_usage_def get_current_usage_try_def)
  from c1 c2 c3 c4 show ?thesis by blast
qed

theorem failures_are_wrapped_witness:
  "fst (check_rate_limit no_headers unreachable_engine api_request None MEDIUM fresh_world) =
     Inl (RateLimitException [Lit ''Rate limit check failed''] 500)
   \<and> last (log (snd (check_rate_limit no_headers unreachable_engine api_request None MEDIUM
                       fresh_world))) =
       LogExn ERROR ''Rate limit check failed: '' (OtherException ''store unreachable'')
   \<and> fst (get_current_usage unreachable_engine api_request None MEDIUM fresh_world) =
       Inl (RateLimitException [Lit ''Usage check failed''] 500)
   \<and> fst (check_rate_limit no_headers memory_engine api_request
            (Some (plain_config\<lparr>key_extraction := Some api_key_strategy\<rparr>)) MEDIUM fresh_world) =
       Inl (RateLimitException [Lit ''Rate limit check failed''] 500)
   \<and> fst (get_current_usage memory_engine api_request
            (Some (plain_config\<lparr>key_extraction := Some api_key_strategy\<rparr>)) MEDIUM fresh_world) =
       Inl (RateLimitException [Lit ''Usage check failed''] 500)"
proof -
  let ?cfg = "plain_config\<lparr>key_extraction := Some api_key_strategy\<rparr>"
  have k: "key_extraction_use_case unreachable_engine api_request (determine_key_strategy None)
             = Inr ''ip:10.0.0.7''"
    by (simp add: unreachable_engine_fields extract_key_ip api_request_def)
  have nb: "\<not> bypass_grants None api_request"
    by (simp add: bypass_grants_def)
  have i: "increment_counter (rate_limit_repository unreachable_engine) ''ip:10.0.0.7''
             (ttl \<lparr>name = MEDIUM, limit = 20, ttl = 600\<rparr>) (store fresh_world)
           = (Inl (OtherException ''store unreachable''), Map.empty)"
    by (simp add: unreachable_engine_fields unreachable_repository_def fresh_world_def)
  have g: "get_current_count (rate_limit_repository unreachable_engine) ''ip:10.0.0.7''
             (store fresh_world)
           = (Inl (OtherException ''store unreachable''), Map.empty)"
    by (simp add: unreachable_engine_fields unreachable_repository_def fresh_world_def)
  have ne: "\<not> is_exceeded_signal (OtherException ''store unreachable'')"
    "\<not> is_exceeded_signal key_extraction_error"
    by (simp_all add: is_exceeded_signal_def key_extraction_error_def)
  have s: "determine_strategy memory_engine (Some ?cfg) MEDIUM
             = Inr \<lparr>name = MEDIUM, limit = 20, ttl = 600\<rparr>"
    by (simp add: determine_strategy_def plain_config_def memory_engine_map)
  have x: "key_extraction_use_case memory_engine api_request (determine_key_strategy (Some ?cfg))
             = Inl key_extraction_error"
    by (simp add: memory_engine_fields determine_key_strategy_def extract_key_def
        extract_field_def api_key_strategy_def api_request_def)
  note store_case = failures_are_wrapped [OF default_medium(2), where request = api_request
      and e = "OtherException ''store unreachable''" and k = "''ip:10.0.0.7''"
      and w = fresh_world and s' = Map.empty and th = no_headers]
  note key_case = failures_are_wrapped [OF s, where request = api_request
      and e = key_extraction_error and w = fresh_world and th = no_headers]
  from store_case k nb i g ne have
    "fst (check_rate_limit no_headers unreachable_engine api_request None MEDIUM fresh_world) =
       Inl (RateLimitException [Lit ''Rate limit check failed''] 500)"
    "last (log (snd (check_rate_limit no_headers unreachable_engine api_request None MEDIUM
                       fresh_world))) =
       LogExn ERROR ''Rate limit check failed: '' (OtherException ''store unreachable'')"
    "fst (get_current_usage unreachable_engine api_request None MEDIUM fresh_world) =
       Inl (RateLimitException [Lit ''Usage check failed''] 500)"
    by simp_all
  moreover from key_case x ne have
    "fst (check_rate_limit no_headers memory_engine api_request (Some ?cfg) MEDIUM fresh_world) =
       Inl (RateLimitException [Lit ''Rate limit check failed''] 500)"
    "fst (get_current_usage memory_engine api_request (Some ?cfg) MEDIUM fresh_world) =
       Inl (RateLimitException [Lit ''Usage check failed''] 500)"
    by simp_all
  ultimately show ?thesis by blast
qed

text \<open>
  A store whose operations raise ``store unreachable'': the caller of the engine gets the
  engine's own exception with its fixed message, not the store's.
\<close>

theorem failures_not_propagated_counterexample:
  "fst (increment_counter (rate_limit_repository unreachable_engine) ''ip:10.0.0.7'' 600
          (store fresh_world)) = Inl (OtherException ''store unreachable'')
   \<and> fst (check_rate_limit no_headers unreachable_engine api_request None MEDIUM fresh_world)
       = Inl (RateLimitException [Lit ''Rate limit check failed''] 500)
   \<and> fst (check_rate_limit no_headers unreachable_engine api_request None MEDIUM fresh_world)
       \<noteq> Inl (OtherException ''store unreachable'')
   \<and> fst (get_current_count (rate_limit_repository unreachable_engine) ''ip:10.0.0.7''
          (store fresh_world)) = Inl (OtherException ''store unreachable'')
   \<and> fst (get_current_usage unreachable_engine api_request None MEDIUM fresh_world)
       = Inl (RateLimitException [Lit ''Usage check failed''] 500)
   \<and> fst (get_current_usage unreachable_engine api_request None MEDIUM fresh_world)
       \<noteq> Inl (OtherException ''store unreachable'')"
  by (simp add: check_rate_limit_def check_rate_limit_try_def get_current_usage_def
      get_current_usage_try_def default_medium unreachable_engine_fields extract_key_ip
      unreachable_repository_def fresh_world_def)

section \<open>The middleware: exclusion, rejection and failure\<close>

lemma path_excluded_loop_iff:
  "path_excluded_loop ps path = (\<exists>p. p \<in> set ps \<and> prefix p path)"
  by (induction ps) auto

lemma run_next_frame:
  "store (snd (run_next call_next request w)) = store w"
  "log (snd (run_next call_next request w)) = log w"
  "printed (snd (run_next call_next request w)) = printed w"
  by (simp_all add: run_next_def split: prod.splits)

lemma dispatch_checked:
  assumes "enabled self" and "\<not> is_path_excluded self (url_path request)"
    and "route_config = (case scope_endpoint request of None \<Rightarrow> None | Some ep \<Rightarrow> grc ep)"
    and "case route_config of None \<Rightarrow> True | Some rc \<Rightarrow> RateLimitConfig.enabled rc"
  shows "dispatch th grc self request call_next w =
      (case dispatch_check th self request route_config call_next w of
         (Inl e, w') \<Rightarrow> run_next call_next request (w'\<lparr>printed := printed w' @ [e]\<rparr>)
       | (Inr response, w') \<Rightarrow> (Inr response, w'))"
proof -
  have "dispatch_try th grc self request call_next w =
          dispatch_check th self request route_config call_next w"
    using assms(3) assms(4) by (simp add: dispatch_try_def split: option.splits)
  then show ?thesis
    using assms(1) assms(2) by (simp add: dispatch_def)
qed

lemma dispatch_checked_frame:
  assumes "enabled self" and "\<not> is_path_excluded self (url_path request)"
    and "route_config = (case scope_endpoint request of None \<Rightarrow> None | Some ep \<Rightarrow> grc ep)"
    and "case route_config of None \<Rightarrow> True | Some rc \<Rightarrow> RateLimitConfig.enabled rc"
  shows "store (snd (dispatch th grc self request call_next w)) =
           store (snd (check_rate_limit th (rate_limit_use_case self) request route_config
                         (default_strategy_name self) w))"
    and "log (snd (dispatch th grc self request call_next w)) =
           log (snd (check_rate_limit th (rate_limit_use_case self) request route_config
                         (default_strategy_name self) w))"
  unfolding dispatch_checked [OF assms]
  by (simp_all add: dispatch_check_def run_next_def
      split: prod.splits sum.splits exn.splits)

text \<open>
  Claim C9. Path exclusion is prefix matching: a path is excluded exactly when one of the
  excluded paths is a prefix of it. When the path of the request starts with an excluded
  path, \<open>dispatch\<close> is the call of the next handler and nothing else; the store, the
  log and the printed output are untouched. When no excluded path is a prefix of it (and
  the middleware and the route are enabled), the check is made: \<open>dispatch\<close> leaves
  the store and the log as the check leaves them. Excluding ``/health'' thus exempts
  ``/healthcheck'' too, and does not exempt ``/api/health''.
\<close>

theorem excluded_prefix_forwards:
  "is_path_excluded self path = (\<exists>p. p \<in> set (excluded_paths self) \<and> prefix p path)
    \<and> (p \<in> set (excluded_paths self) \<and> prefix p (url_path request) \<longrightarrow>
         is_path_excluded self (url_path request)
         \<and> dispatch th grc self request call_next w = run_next call_next request w
         \<and> fst (dispatch th grc self request call_next w) = fst (call_next request (app w))
         \<and> store (snd (dispatch th grc self request call_next w)) = store w
         \<and> log (snd (dispatch th grc self request call_next w)) = log w
         \<and> printed (snd (dispatch th grc self request call_next w)) = printed w)
    \<and> (enabled self
        \<and> \<not> (\<exists>p. p \<in> set (excluded_paths self) \<and> prefix p (url_path request))
        \<and> route_config = (case scope_endpoint request of None \<Rightarrow> None | Some ep \<Rightarrow> grc ep)
        \<and> (case route_config of None \<Rightarrow> True | Some rc \<Rightarrow> RateLimitConfig.enabled rc) \<longrightarrow>
         store (snd (dispatch th grc self request call_next w)) =
           store (snd (check_rate_limit th (rate_limit_use_case self) request route_config
                         (default_strategy_name self) w))
         \<and> log (snd (dispatch th grc self request call_next w)) =
           log (snd (check_rate_limit th (rate_limit_use_case self) request route_config
                         (default_strategy_name self) w)))"
proof -
  have iff: "is_path_excluded self q = (\<exists>p. p \<in> set (excluded_paths self) \<and> prefix p q)" for q
    by (simp add: is_path_excluded_def path_excluded_loop_iff)
  have excl: "is_path_excluded self (url_path request)
         \<and> dispatch th grc self request call_next w = run_next call_next request w
         \<and> fst (dispatch th grc self request call_next w) = fst (call_next request (app w))
         \<and> store (snd (dispatch th grc self request call_next w)) = store w
         \<and> log (snd (dispatch th grc self request call_next w)) = log w
         \<and> printed (snd (dispatch th grc self request call_next w)) = printed w"
    if "p \<in> set (excluded_paths self)" and "prefix p (url_path request)"
  proof -
    have ex: "is_path_excluded self (url_path request)"
      using that iff by blast
    then have d: "dispatch th grc self request call_next w = run_next call_next request w"
      by (simp add: dispatch_def)
    have "fst (run_next call_next request w) = fst (call_next request (app w))"
      by (simp add: run_next_def split: prod.splits)
    with ex d show ?thesis
      by (simp add: run_next_frame)
  qed
  have checked: "store (snd (dispatch th grc self request call_next w)) =
           store (snd (check_rate_limit th (rate_limit_use_case self) request route_config
                         (default_strategy_name self) w))
         \<and> log (snd (dispatch th grc self request call_next w)) =
           log (snd (check_rate_limit th (rate_limit_use_case self) request route_config
                         (default_strategy_name self) w))"
    if "enabled self"
      and "\<not> (\<exists>p. p \<in> set (excluded_paths self) \<and> prefix p (url_path request))"
      and "route_config = (case scope_endpoint request of None \<Rightarrow> None | Some ep \<Rightarrow> grc ep)"
      and "case route_config of None \<Rightarrow> True | Some rc \<Rightarrow> RateLimitConfig.enabled rc"
  proof -
    have "\<not> is_path_excluded self (url_path request)"
      using that(2) iff by blast
    from dispatch_checked_frame [OF that(1) this that(3) that(4)]
    show ?thesis by blast
  qed
  from iff excl checked show ?thesis by blast
qed

theorem excluded_prefix_forwards_witness:
  "is_path_excluded health_middleware ''/healthcheck''
   \<and> dispatch no_headers no_route_config health_middleware healthcheck_request ok_handler
        fresh_world =
       (Inr \<lparr>status_code = 200, content = AppContent ''ok'', headers = []\<rparr>,
        fresh_world\<lparr>app := 1\<rparr>)
   \<and> store (snd (dispatch no_headers no_route_config health_middleware healthcheck_request
                    ok_handler fresh_world)) = store fresh_world
   \<and> is_path_excluded health_middleware ''/health''
   \<and> \<not> is_path_excluded health_middleware ''/api/health''
   \<and> \<not> is_path_excluded health_middleware ''/heal''
   \<and> store (snd (dispatch no_headers no_route_config health_middleware
                    (api_request\<lparr>url_path := ''/api/health''\<rparr>) ok_handler fresh_world)) =
       [''ip:10.0.0.7'' \<mapsto> (1, 600)]"
proof -
  let ?rq = "api_request\<lparr>url_path := ''/api/health''\<rparr>"
  let ?m = "\<lparr>name = MEDIUM, limit = 20, ttl = 600\<rparr>"
  have paths: "excluded_paths health_middleware = [''/health'', ''/docs'']"
    by (simp add: health_middleware_def)
  have c: "url_path healthcheck_request = ''/healthcheck''"
    by (simp add: healthcheck_request_def)
  have d: "run_next ok_handler healthcheck_request fresh_world =
       (Inr \<lparr>status_code = 200, content = AppContent ''ok'', headers = []\<rparr>,
        fresh_world\<lparr>app := 1\<rparr>)"
    by (simp add: run_next_def ok_handler_def fresh_world_def)
  have forwarded:
    "is_path_excluded health_middleware ''/healthcheck''
     \<and> dispatch no_headers no_route_config health_middleware healthcheck_request ok_handler
          fresh_world =
         (Inr \<lparr>status_code = 200, content = AppContent ''ok'', headers = []\<rparr>,
          fresh_world\<lparr>app := 1\<rparr>)
     \<and> store (snd (dispatch no_headers no_route_config health_middleware healthcheck_request
                      ok_handler fresh_world)) = store fresh_world"
  proof -
    have a: "''/health'' \<in> set (excluded_paths health_middleware)
               \<and> prefix ''/health'' (url_path healthcheck_request)"
      by (simp add: paths c)
    from excluded_prefix_forwards [where self = health_middleware and p = "''/health''"
        and request = healthcheck_request and th = no_headers and grc = no_route_config
        and call_next = ok_handler and w = fresh_world and path = "''/healthcheck''"
        and route_config = None] a
    have "is_path_excluded health_middleware (url_path healthcheck_request)
      \<and> dispatch no_headers no_route_config health_middleware healthcheck_request ok_handler
            fresh_world = run_next ok_handler healthcheck_request fresh_world
      \<and> store (snd (dispatch no_headers no_route_config health_middleware healthcheck_request
                      ok_handler fresh_world)) = store fresh_world"
      by blast
    then show ?thesis
      unfolding c d by simp
  qed
  have iffp: "is_path_excluded health_middleware q =
                (\<exists>p. p \<in> set (excluded_paths health_middleware) \<and> prefix p q)" for q
    using excluded_prefix_forwards [where self = health_middleware and path = q,
        THEN conjunct1] .
  have exact: "is_path_excluded health_middleware ''/health''"
    by (auto simp add: iffp paths)
  have inner: "\<not> is_path_excluded health_middleware ''/api/health''"
    by (auto simp add: iffp paths)
  have shorter: "\<not> is_path_excluded health_middleware ''/heal''"
    by (auto simp add: iffp paths)
  have np: "\<not> (\<exists>p. p \<in> set (excluded_paths health_middleware) \<and> prefix p (url_path ?rq))"
    by (auto simp add: paths)
  have rc: "None = (case scope_endpoint ?rq of None \<Rightarrow> None | Some ep \<Rightarrow> no_route_config ep)"
    by (simp add: no_route_config_def split: option.splits)
  have en: "case None :: string Request RateLimitConfig option of None \<Rightarrow> True
              | Some rc \<Rightarrow> RateLimitConfig.enabled rc"
    by simp
  have k: "key_extraction_use_case memory_engine ?rq (determine_key_strategy None)
             = Inr ''ip:10.0.0.7''"
    by (simp add: memory_engine_fields extract_key_ip api_request_def)
  have nb: "\<not> bypass_grants None ?rq"
    by (simp add: bypass_grants_def)
  have i: "increment_counter (rate_limit_repository memory_engine) ''ip:10.0.0.7'' (ttl ?m)
             (store fresh_world) = (Inr 1, [''ip:10.0.0.7'' \<mapsto> (1, 600)])"
    by (simp add: memory_engine_fields fresh_world_def memory_increment_fresh)
  have chk: "store (snd (check_rate_limit no_headers memory_engine ?rq None MEDIUM fresh_world))
               = [''ip:10.0.0.7'' \<mapsto> (1, 600)]"
    using try_counted [OF default_medium(1) k nb i, where th = no_headers]
    by (simp add: check_store)
  have en_mw: "enabled health_middleware"
    "rate_limit_use_case health_middleware = memory_engine"
    "default_strategy_name health_middleware = MEDIUM"
    by (simp_all add: health_middleware_def)
  from excluded_prefix_forwards [where self = health_middleware and request = ?rq
      and route_config = None and grc = no_route_config and th = no_headers
      and call_next = ok_handler and w = fresh_world] en_mw(1) np rc en
  have "store (snd (dispatch no_headers no_route_config health_middleware ?rq ok_handler
                      fresh_world)) =
        store (snd (check_rate_limit no_headers (rate_limit_use_case health_middleware) ?rq
                      None (default_strategy_name health_middleware) fresh_world))"
    by blast
  then have counted:
    "store (snd (dispatch no_headers no_route_config health_middleware ?rq ok_handler
                   fresh_world)) = [''ip:10.0.0.7'' \<mapsto> (1, 600)]"
    by (simp add: en_mw chk)
  from forwarded exact inner shorter counted show ?thesis by blast
qed

text \<open>
  Claim C4, as the code has it. For a request that is rate limited (middleware enabled,
  path not excluded, route not disabled): an exceeded signal of the check becomes the
  JSON response with the signal's status, detail and headers, and when the count is over
  the limit this is status 429 with retry-after and limit in the detail, the next handler
  not called; any other exception of the check is printed and the request is passed to
  the next handler.
\<close>

theorem dispatch_rejects_exceeded_forwards_errors:
  assumes "enabled self" and "\<not> is_path_excluded self (url_path request)"
    and "route_config = (case scope_endpoint request of None \<Rightarrow> None | Some ep \<Rightarrow> grc ep)"
    and "case route_config of None \<Rightarrow> True | Some rc \<Rightarrow> RateLimitConfig.enabled rc"
  shows "(check_rate_limit th (rate_limit_use_case self) request route_config
             (default_strategy_name self) w = (Inl (RateLimitHTTPException sc dt h), w') \<longrightarrow>
           dispatch th grc self request call_next w =
             (Inr \<lparr>status_code = sc, content = JSONContent dt, headers = h\<rparr>, w'))
    \<and> (check_rate_limit th (rate_limit_use_case self) request route_config
             (default_strategy_name self) w = (Inl e, w') \<and> \<not> is_exceeded_signal e \<longrightarrow>
           dispatch th grc self request call_next w =
             run_next call_next request (w'\<lparr>printed := printed w' @ [e]\<rparr>))
    \<and> (determine_strategy (rate_limit_use_case self) route_config (default_strategy_name self)
           = Inr st
        \<and> key_extraction_use_case (rate_limit_use_case self) request
             (determine_key_strategy route_config) = Inr k
        \<and> \<not> bypass_grants route_config request
        \<and> fst (increment_counter (rate_limit_repository (rate_limit_use_case self)) k (ttl st)
                 (store w)) = Inr c
        \<and> limit st < c \<longrightarrow>
           fst (dispatch th grc self request call_next w) =
             Inr \<lparr>status_code = 429,
                  content = JSONContent
                    \<lparr>message = get_error_message route_config
                       \<lparr>allowed = False, key = k, current_count = c,
                        RateLimitResult.limit = limit st, RateLimitResult.ttl = ttl st,
                        RateLimitResult.retry_after = Some (ttl st),
                        RateLimitResult.strategy_name = name st\<rparr>,
                     Detail.retry_after = Some (ttl st), Detail.limit = limit st,
                     window = ttl st\<rparr>,
                  headers = th \<lparr>allowed = False, key = k, current_count = c,
                        RateLimitResult.limit = limit st, RateLimitResult.ttl = ttl st,
                        RateLimitResult.retry_after = Some (ttl st),
                        RateLimitResult.strategy_name = name st\<rparr>\<rparr>
           \<and> app (snd (dispatch th grc self request call_next w)) = app w)"
proof -
  have dt: "dispatch_try th grc self request call_next w =
              dispatch_check th self request route_config call_next w"
    using assms(3) assms(4) by (simp add: dispatch_try_def split: option.splits)
  have d: "dispatch th grc self request call_next w =
      (case dispatch_check th self request route_config call_next w of
         (Inl e, w') \<Rightarrow> run_next call_next request (w'\<lparr>printed := printed w' @ [e]\<rparr>)
       | (Inr response, w') \<Rightarrow> (Inr response, w'))"
    using assms(1) assms(2) by (simp add: dispatch_def dt)
  have c1: "check_rate_limit th (rate_limit_use_case self) request route_config
             (default_strategy_name self) w = (Inl (RateLimitHTTPException sc dt h), w') \<longrightarrow>
           dispatch th grc self request call_next w =
             (Inr \<lparr>status_code = sc, content = JSONContent dt, headers = h\<rparr>, w')"
    by (simp add: d dispatch_check_def)
  have c2: "check_rate_limit th (rate_limit_use_case self) request route_config
             (default_strategy_name self) w = (Inl e, w') \<and> \<not> is_exceeded_signal e \<longrightarrow>
           dispatch th grc self request call_next w =
             run_next call_next request (w'\<lparr>printed := printed w' @ [e]\<rparr>)"
    by (auto simp add: d dispatch_check_def is_exceeded_signal_def split: exn.splits)
  have c3: "fst (dispatch th grc self request call_next w) =
             Inr \<lparr>status_code = 429,
                  content = JSONContent
                    \<lparr>message = get_error_message route_config
                       \<lparr>allowed = False, key = k, current_count = c,
                        RateLimitResult.limit = limit st, RateLimitResult.ttl = ttl st,
                        RateLimitResult.retry_after = Some (ttl st),
                        RateLimitResult.strategy_name = name st\<rparr>,
                     Detail.retry_after = Some (ttl st), Detail.limit = limit st,
                     window = ttl st\<rparr>,
                  headers = th \<lparr>allowed = False, key = k, current_count = c,
                        RateLimitResult.limit = limit st, RateLimitResult.ttl = ttl st,
                        RateLimitResult.retry_after = Some (ttl st),
                        RateLimitResult.strategy_name = name st\<rparr>\<rparr>
           \<and> app (snd (dispatch th grc self request call_next w)) = app w"
    if h: "determine_strategy (rate_limit_use_case self) route_config (default_strategy_name self)
           = Inr st"
      "key_extraction_use_case (rate_limit_use_case self) request
             (determine_key_strategy route_config) = Inr k"
      "\<not> bypass_grants route_config request"
      "fst (increment_counter (rate_limit_repository (rate_limit_use_case self)) k (ttl st)
                 (store w)) = Inr c"
      "limit st < c"
  proof -
    let ?chk = "check_rate_limit th (rate_limit_use_case self) request route_config
                  (default_strategy_name self) w"
    have f: "fst ?chk = Inl (RateLimitHTTPException 429
                    \<lparr>message = get_error_message route_config
                       \<lparr>allowed = False, key = k, current_count = c,
                        RateLimitResult.limit = limit st, RateLimitResult.ttl = ttl st,
                        RateLimitResult.retry_after = Some (ttl st),
                        RateLimitResult.strategy_name = name st\<rparr>,
                     Detail.retry_after = Some (ttl st), Detail.limit = limit st,
                     window = ttl st\<rparr>
                    (th \<lparr>allowed = False, key = k, current_count = c,
                        RateLimitResult.limit = limit st, RateLimitResult.ttl = ttl st,
                        RateLimitResult.retry_after = Some (ttl st),
                        RateLimitResult.strategy_name = name st\<rparr>))"
      using check_counted [OF h(1) h(2) h(3) h(4), where th = th] h(5) by simp
    have a: "app (snd ?chk) = app w"
      using h(1) h(2) h(3)
      by (simp add: check_rate_limit_def check_rate_limit_try_def bypass_grants_def Let_def
          split: prod.splits sum.splits exn.splits option.splits)
    obtain r w1 where rw: "?chk = (r, w1)" by (cases ?chk)
    with f a have "r = Inl (RateLimitHTTPException 429
                    \<lparr>message = get_error_message route_config
                       \<lparr>allowed = False, key = k, current_count = c,
                        RateLimitResult.limit = limit st, RateLimitResult.ttl = ttl st,
                        RateLimitResult.retry_after = Some (ttl st),
                        RateLimitResult.strategy_name = name st\<rparr>,
                     Detail.retry_after = Some (ttl st), Detail.limit = limit st,
                     window = ttl st\<rparr>
                    (th \<lparr>allowed = False, key = k, current_count = c,
                        RateLimitResult.limit = limit st, RateLimitResult.ttl = ttl st,
                        RateLimitResult.retry_after = Some (ttl st),
                        RateLimitResult.strategy_name = name st\<rparr>))"
      and "app w1 = app w"
      by simp_all
    with rw show ?thesis
      by (simp add: d dispatch_check_def)
  qed
  from c1 c2 c3 show ?thesis by blast
qed

lemma unreachable_check:
  "check_rate_limit no_headers unreachable_engine api_request None MEDIUM fresh_world =
     (Inl (RateLimitException [Lit ''Rate limit check failed''] 500),
      fresh_world\<lparr>log := [LogExn ERROR ''Rate limit check failed: ''
                              (OtherException ''store unreachable'')]\<rparr>)"
  by (simp add: check_rate_limit_def check_rate_limit_try_def default_medium
      unreachable_engine_fields extract_key_ip unreachable_repository_def fresh_world_def)

lemma middleware_fields:
  "rate_limit_use_case unreachable_middleware = unreachable_engine"
  "default_strategy_name unreachable_middleware = MEDIUM"
  "enabled unreachable_middleware"
  "\<not> is_path_excluded unreachable_middleware (url_path api_request)"
  "rate_limit_use_case health_middleware = memory_engine"
  "default_strategy_name health_middleware = MEDIUM"
  "enabled health_middleware"
  "\<not> is_path_excluded health_middleware (url_path api_request)"
  by (simp_all add: unreachable_middleware_def health_middleware_def is_path_excluded_def
      api_request_def)

lemma api_route:
  "None = (case scope_endpoint api_request of None \<Rightarrow> None | Some ep \<Rightarrow> no_route_config ep)"
  "case None :: string Request RateLimitConfig option of None \<Rightarrow> True
     | Some rc \<Rightarrow> RateLimitConfig.enabled rc"
  by (simp_all add: api_request_def no_route_config_def)

theorem dispatch_rejects_exceeded_forwards_errors_witness:
  "fst (dispatch no_headers no_route_config health_middleware api_request ok_handler
          (fresh_world\<lparr>store := [''ip:10.0.0.7'' \<mapsto> (20, 600)]\<rparr>)) =
     Inr \<lparr>status_code = 429,
          content = JSONContent
            \<lparr>message = [Lit ''Rate limit exceeded. Maximum '', IntV 20,
                        Lit '' requests per '', IntV 600,
                        Lit '' seconds. Please try again in '', OptIntV (Some 600),
                        Lit '' seconds.''],
             Detail.retry_after = Some 600, Detail.limit = 20, window = 600\<rparr>,
          headers = []\<rparr>
   \<and> app (snd (dispatch no_headers no_route_config health_middleware api_request ok_handler
          (fresh_world\<lparr>store := [''ip:10.0.0.7'' \<mapsto> (20, 600)]\<rparr>))) = 0
   \<and> dispatch no_headers no_route_config unreachable_middleware api_request ok_handler
        fresh_world =
       (Inr \<lparr>status_code = 200, content = AppContent ''ok'', headers = []\<rparr>,
        fresh_world\<lparr>log := [LogExn ERROR ''Rate limit check failed: ''
                                (OtherException ''store unreachable'')],
                     app := 1,
                     printed := [RateLimitException [Lit ''Rate limit check failed''] 500]\<rparr>)"
proof -
  let ?w = "fresh_world\<lparr>store := [''ip:10.0.0.7'' \<mapsto> (20, 600)]\<rparr>"
  let ?m = "\<lparr>name = MEDIUM, limit = 20, ttl = 600\<rparr>"
  have k: "key_extraction_use_case memory_engine api_request (determine_key_strategy None)
             = Inr ''ip:10.0.0.7''"
    by (simp add: memory_engine_fields extract_key_ip api_request_def)
  have nb: "\<not> bypass_grants None api_request"
    by (simp add: bypass_grants_def)
  have i: "fst (increment_counter (rate_limit_repository memory_engine) ''ip:10.0.0.7''
                  (ttl ?m) (store ?w)) = Inr 21"
    using memory_increment_existing [of "''ip:10.0.0.7''" 600 20 600]
    by (simp add: memory_engine_fields)
  have ne: "\<not> is_exceeded_signal (RateLimitException [Lit ''Rate limit check failed''] 500)"
    by (simp add: is_exceeded_signal_def)
  note exceeded = dispatch_rejects_exceeded_forwards_errors
      [OF middleware_fields(7) middleware_fields(8) api_route, where th = no_headers
        and w = ?w and st = ?m and k = "''ip:10.0.0.7''" and c = 21 and call_next = ok_handler]
  note failed = dispatch_rejects_exceeded_forwards_errors
      [OF middleware_fields(3) middleware_fields(4) api_route, where th = no_headers
        and w = fresh_world and call_next = ok_handler
        and e = "RateLimitException [Lit ''Rate limit check failed''] 500"
        and w' = "fresh_world\<lparr>log := [LogExn ERROR ''Rate limit check failed: ''
                              (OtherException ''store unreachable'')]\<rparr>"]
  from exceeded default_medium(1) k nb i have
    "fst (dispatch no_headers no_route_config health_middleware api_request ok_handler ?w) =
       Inr \<lparr>status_code = 429,
            content = JSONContent
              \<lparr>message = get_error_message (None :: string Request RateLimitConfig option)
                 \<lparr>allowed = False, key = ''ip:10.0.0.7'', current_count = 21,
                  RateLimitResult.limit = limit ?m, RateLimitResult.ttl = ttl ?m,
                  RateLimitResult.retry_after = Some (ttl ?m),
                  RateLimitResult.strategy_name = name ?m\<rparr>,
               Detail.retry_after = Some (ttl ?m), Detail.limit = limit ?m,
               window = ttl ?m\<rparr>,
            headers = no_headers \<lparr>allowed = False, key = ''ip:10.0.0.7'', current_count = 21,
                  RateLimitResult.limit = limit ?m, RateLimitResult.ttl = ttl ?m,
                  RateLimitResult.retry_after = Some (ttl ?m),
                  RateLimitResult.strategy_name = name ?m\<rparr>\<rparr>
     \<and> app (snd (dispatch no_headers no_route_config health_middleware api_request ok_handler
                     ?w)) = app ?w"
    by (simp add: middleware_fields)
  then have first:
    "fst (dispatch no_headers no_route_config health_middleware api_request ok_handler ?w) =
     Inr \<lparr>status_code = 429,
          content = JSONContent
            \<lparr>message = [Lit ''Rate limit exceeded. Maximum '', IntV 20,
                        Lit '' requests per '', IntV 600,
                        Lit '' seconds. Please try again in '', OptIntV (Some 600),
                        Lit '' seconds.''],
             Detail.retry_after = Some 600, Detail.limit = 20, window = 600\<rparr>,
          headers = []\<rparr>
     \<and> app (snd (dispatch no_headers no_route_config health_middleware api_request ok_handler
                     ?w)) = 0"
    by (simp add: get_error_message_def no_headers_def fresh_world_def)
  from failed unreachable_check ne have
    "dispatch no_headers no_route_config unreachable_middleware api_request ok_handler
        fresh_world =
     run_next ok_handler api_request
       (fresh_world\<lparr>log := [LogExn ERROR ''Rate limit check failed: ''
                              (OtherException ''store unreachable'')],
          printed := printed (fresh_world\<lparr>log := [LogExn ERROR ''Rate limit check failed: ''
                              (OtherException ''store unreachable'')]\<rparr>)
                     @ [RateLimitException [Lit ''Rate limit check failed''] 500]\<rparr>)"
    by (simp add: middleware_fields)
  then have second:
    "dispatch no_headers no_route_config unreachable_middleware api_request ok_handler
        fresh_world =
       (Inr \<lparr>status_code = 200, content = AppContent ''ok'', headers = []\<rparr>,
        fresh_world\<lparr>log := [LogExn ERROR ''Rate limit check failed: ''
                                (OtherException ''store unreachable'')],
                     app := 1,
                     printed := [RateLimitException [Lit ''Rate limit check failed''] 500]\<rparr>)"
    by (simp add: run_next_def ok_handler_def fresh_world_def)
  from first second show ?thesis by blast
qed

text \<open>
  With a store that cannot be reached the check raises, and the middleware answers with
  the response of the next handler, status 200: the request went through.
\<close>

theorem dispatch_fails_open_counterexample:
  "fst (check_rate_limit no_headers (rate_limit_use_case unreachable_middleware) api_request
          None (default_strategy_name unreachable_middleware) fresh_world) =
     Inl (RateLimitException [Lit ''Rate limit check failed''] 500)
   \<and> fst (dispatch no_headers no_route_config unreachable_middleware api_request ok_handler
            fresh_world) =
       Inr \<lparr>status_code = 200, content = AppContent ''ok'', headers = []\<rparr>
   \<and> app fresh_world = 0
   \<and> app (snd (dispatch no_headers no_route_config unreachable_middleware api_request
                  ok_handler fresh_world)) = 1"
proof -
  have c: "fst (check_rate_limit no_headers (rate_limit_use_case unreachable_middleware)
                  api_request None (default_strategy_name unreachable_middleware) fresh_world) =
     Inl (RateLimitException [Lit ''Rate limit check failed''] 500)"
    unfolding middleware_fields unreachable_check by simp
  have d: "dispatch no_headers no_route_config unreachable_middleware api_request ok_handler
        fresh_world =
       (Inr \<lparr>status_code = 200, content = AppContent ''ok'', headers = []\<rparr>,
        fresh_world\<lparr>log := [LogExn ERROR ''Rate limit check failed: ''
                                (OtherException ''store unreachable'')],
                     app := 1,
                     printed := [RateLimitException [Lit ''Rate limit check failed''] 500]\<rparr>)"
  proof -
    have se: "scope_endpoint api_request = Some ''get_data''"
      by (simp add: api_request_def)
    have d1: "dispatch_try no_headers no_route_config unreachable_middleware api_request
                ok_handler fresh_world =
              dispatch_check no_headers unreachable_middleware api_request None ok_handler
                fresh_world"
      by (simp add: dispatch_try_def se no_route_config_def)
    have d2: "dispatch_check no_headers unreachable_middleware api_request None ok_handler
                fresh_world =
              (Inl (RateLimitException [Lit ''Rate limit check failed''] 500),
               fresh_world\<lparr>log := [LogExn ERROR ''Rate limit check failed: ''
                              (OtherException ''store unreachable'')]\<rparr>)"
      by (simp add: dispatch_check_def middleware_fields unreachable_check)
    have d0: "dispatch no_headers no_route_config unreachable_middleware api_request
                ok_handler fresh_world =
              run_next ok_handler api_request
                (fresh_world\<lparr>log := [LogExn ERROR ''Rate limit check failed: ''
                              (OtherException ''store unreachable'')],
                   printed := printed fresh_world
                     @ [RateLimitException [Lit ''Rate limit check failed''] 500]\<rparr>)"
      by (simp add: dispatch_def middleware_fields d1 d2)
    show ?thesis
      unfolding d0 by (simp add: run_next_def ok_handler_def fresh_world_def)
  qed
  have "app fresh_world = 0"
    by (simp add: fresh_world_def)
  with c show ?thesis
    unfolding d by simp
qed

end
